theory Spec2Isabelle
  imports Complex_Main
begin


section \<open>Numbers\<close>

text \<open>
  JavaScript numbers are IEEE 754 double-precision values.  A finite double is a real number,
  and every arithmetic operation of the language returns the exact result rounded to the
  nearest double, a tie going to the even significand.  The model keeps numbers in
  \<^typ>\<open>real\<close> and writes the rounding out: \<open>dbl x\<close> is the double nearest to \<open>x\<close>, with the
  gradual underflow of the format (the smallest positive double is \<open>2 powi (- 1074)\<close>, and
  what is nearer to zero than to it rounds to zero).  Overflow is not modelled: magnitudes
  are taken to stay below \<open>2 powi 1024\<close>, as prices, ratios and rates do.  NaN and the
  infinities are modelled at the one place where the code can produce them, the unguarded
  quotient of the live Bollinger function.

  \<open>rhe\<close> rounds a real to the nearest integer, a tie going to the even one; \<open>dexp x\<close> is the
  exponent of the unit in the last place of the doubles around \<open>x\<close>.
\<close>

definition rhe :: "real \<Rightarrow> int" where
  "rhe y = (let f = \<lfloor>y\<rfloor> in
      if y - of_int f < 1 / 2 then f
      else if y - of_int f > 1 / 2 then f + 1
      else if even f then f else f + 1)"

definition dexp :: "real \<Rightarrow> int" where
  "dexp x = max \<lfloor>log 2 \<bar>x\<bar>\<rfloor> (- 1022) - 52"

definition dbl :: "real \<Rightarrow> real" where
  "dbl x = (if x = 0 then 0 else of_int (rhe (x / 2 powi dexp x)) * 2 powi dexp x)"

text \<open>
  The operations \<^verbatim>\<open>+\<close>, \<^verbatim>\<open>-\<close>, \<^verbatim>\<open>*\<close>, \<^verbatim>\<open>/\<close> and \<^verbatim>\<open>Math.sqrt\<close> on doubles.  (\<open>fdiv\<close> is used
  where the divisor is not zero.)
\<close>

definition fadd :: "real \<Rightarrow> real \<Rightarrow> real" where "fadd x y = dbl (x + y)"
definition fsub :: "real \<Rightarrow> real \<Rightarrow> real" where "fsub x y = dbl (x - y)"
definition fmul :: "real \<Rightarrow> real \<Rightarrow> real" where "fmul x y = dbl (x * y)"
definition fdiv :: "real \<Rightarrow> real \<Rightarrow> real" where "fdiv x y = dbl (x / y)"
definition fsqrt :: "real \<Rightarrow> real" where "fsqrt x = dbl (sqrt x)"

text \<open>
  The value of a quotient \<^verbatim>\<open>a / b\<close> of two doubles whose divisor may be \<^verbatim>\<open>+0\<close>:
  \<^verbatim>\<open>0 / 0\<close> is NaN and \<^verbatim>\<open>a / 0\<close> is the infinity with the sign of \<^verbatim>\<open>a\<close>.
\<close>

datatype quotient = NaN | PosInf | NegInf | Num real

definition js_div :: "real \<Rightarrow> real \<Rightarrow> quotient" where
  "js_div a b =
     (if b = 0 then (if a = 0 then NaN else if a > 0 then PosInf else NegInf)
      else Num (fdiv a b))"

text \<open>
  How the functions below use this.  The numbers of a market snapshot and the closes of a
  candle are written in the model as the decimal numbers of the exchange's response
  (\<^verbatim>\<open>parseFloat\<close> of a string); the program computes with their nearest doubles, so the
  scorer and the Bollinger functions read every such number \<open>x\<close> as \<open>dbl x\<close>, a decimal
  literal \<open>c\<close> of the source is \<open>dbl c\<close>, and each of their operations rounds.  Integer
  literals and integer scores are doubles as they stand.  The Wilder averages, the
  exponential moving averages and the profit arithmetic of the simulator are modelled in
  exact arithmetic: the properties proved of them hold of any arithmetic in which the two
  compared computations perform the same operations in the same order, and the inputs
  they are evaluated on are computed by doubles without rounding error in the compared
  decisions.
\<close>

section \<open>Data model\<close>

text \<open>
  Numbers are \<^typ>\<open>real\<close>, with the rounding of the doubles written out where the functions
  round (see above); array indices and bar counts are \<^typ>\<open>nat\<close>.  Where the source can
  divide by zero the model says so at that place.

  A candle is the object \<^verbatim>\<open>{ts, o, h, l, c, vol}\<close> built by \<^verbatim>\<open>fetchCandles\<close> and
  \<^verbatim>\<open>collectData\<close>; the one-letter field names are prefixed because \<^verbatim>\<open>o\<close> is function
  composition in HOL.
\<close>

record candle =
  candle_ts :: int
  candle_o :: real
  candle_h :: real
  candle_l :: real
  candle_c :: real
  candle_vol :: real

text \<open>The object \<^verbatim>\<open>{macd, signal, hist}\<close> returned by both MACD functions.\<close>

record macd_point =
  mp_macd :: real
  mp_signal :: real
  mp_hist :: real

text \<open>The object \<^verbatim>\<open>{upper, middle, lower, percentB}\<close> of \<^verbatim>\<open>calcBollingerSeries\<close>.\<close>

record bollinger =
  bb_upper :: real
  bb_middle :: real
  bb_lower :: real
  bb_percentB :: real

text \<open>
  A signal of \<^verbatim>\<open>generateSignals\<close>: \<^verbatim>\<open>{idx, ts, price, score, ...}\<close>.  The remaining fields
  (\<^verbatim>\<open>rsi\<close>, \<^verbatim>\<open>macdHist\<close>, \<^verbatim>\<open>bbPctB\<close>, \<^verbatim>\<open>reasons\<close>) are display strings that
  \<^verbatim>\<open>runBacktest\<close> never reads; they are left out.
\<close>

record signal =
  sig_idx :: nat
  sig_ts :: int
  sig_price :: real
  sig_score :: real

datatype side = Long | Short

text \<open>The four exit reasons: the source's strings for take-profit, stop-loss, signal reversal
  and end of the backtest.\<close>

datatype reason = TakeProfit | StopLoss | SignalReversal | EndOfData

text \<open>The open position \<^verbatim>\<open>{side, entry, entryIdx, score}\<close>.\<close>

record position =
  pos_side :: side
  pos_entry :: real
  pos_entryIdx :: nat
  pos_score :: real

text \<open>
  A ledger entry.  The source stores \<^verbatim>\<open>entryTime = candles[position.entryIdx].ts\<close> and
  \<^verbatim>\<open>exitTime = nextCandle.ts\<close> as formatted dates; the model keeps the candle index each of
  them is read from (\<open>tr_entryIdx\<close>, \<open>tr_exitIdx\<close>).  The forced close at the end of the data
  exits at \<^verbatim>\<open>candles[candles.length - 1].c\<close>, so its exit index is \<^verbatim>\<open>candles.length - 1\<close>.
  \<open>tr_pnl\<close> is the number before \<^verbatim>\<open>toFixed(2)\<close>.
\<close>

record trade =
  tr_side :: side
  tr_entry :: real
  tr_exit :: real
  tr_pnl :: real
  tr_reason :: reason
  tr_entryIdx :: nat
  tr_exitIdx :: nat
  tr_holdBars :: int

text \<open>The mutable variables of \<^verbatim>\<open>runBacktest\<close>, threaded through the loop.\<close>

record bt_state =
  trades :: "trade list"
  position :: "position option"
  totalPnl :: real
  wins :: nat
  losses :: nat
  maxDrawdown :: real
  peak :: real
  equity :: real

section \<open>Backtest indicators (backtest script)\<close>

text \<open>\<^verbatim>\<open>closes[i] - closes[i - 1]\<close> for \<^verbatim>\<open>i = 1 .. closes.length - 1\<close>.\<close>

definition changes :: "real list \<Rightarrow> real list" where
  "changes closes = map (\<lambda>(cur, prev). cur - prev) (zip (tl closes) closes)"

text \<open>First loop of \<^verbatim>\<open>calcRSI\<close>: sums of gains and of losses over the first \<open>period\<close> changes.\<close>

fun rsi_seed :: "real \<Rightarrow> real \<Rightarrow> real list \<Rightarrow> real \<times> real" where
  "rsi_seed avgGain avgLoss [] = (avgGain, avgLoss)"
| "rsi_seed avgGain avgLoss (change # rest) =
     (if change > 0 then rsi_seed (avgGain + change) avgLoss rest
      else rsi_seed avgGain (avgLoss - change) rest)"

definition rsi_value :: "real \<Rightarrow> real \<Rightarrow> real" where
  "rsi_value avgGain avgLoss =
     (if avgLoss = 0 then 100 else 100 - 100 / (1 + avgGain / avgLoss))"

text \<open>Second loop of \<^verbatim>\<open>calcRSI\<close>: Wilder smoothing, one pushed value per further change.\<close>

fun rsi_wilder :: "nat \<Rightarrow> real \<Rightarrow> real \<Rightarrow> real list \<Rightarrow> real list" where
  "rsi_wilder period avgGain avgLoss [] = []"
| "rsi_wilder period avgGain avgLoss (change # rest) =
     (let g = (if change > 0 then (avgGain * (real period - 1) + change) / real period
               else (avgGain * (real period - 1)) / real period);
          l = (if change > 0 then (avgLoss * (real period - 1)) / real period
               else (avgLoss * (real period - 1) - change) / real period)
      in rsi_value g l # rsi_wilder period g l rest)"

text \<open>
  \<^verbatim>\<open>calcRSI(closes, period)\<close> of the backtest script: \<^verbatim>\<open>null\<close> for a too short series,
  otherwise \<open>period + 1\<close> leading \<^verbatim>\<open>null\<close>s, the seed value, and the smoothed values.
\<close>

definition bt_calcRSI :: "real list \<Rightarrow> nat \<Rightarrow> real option list option" where
  "bt_calcRSI closes period =
     (if length closes < period + 1 then None
      else
        let chs = changes closes;
            (g0, l0) = rsi_seed 0 0 (take period chs);
            avgGain = g0 / real period;
            avgLoss = l0 / real period
        in Some (replicate (period + 1) None
                 @ [Some (rsi_value avgGain avgLoss)]
                 @ map Some (rsi_wilder period avgGain avgLoss (drop period chs))))"

text \<open>The loop of \<^verbatim>\<open>calcEMASeries\<close>: \<^verbatim>\<open>ema.push(values[i] * k + ema[i - 1] * (1 - k))\<close>.\<close>

fun ema_loop :: "real \<Rightarrow> real \<Rightarrow> real list \<Rightarrow> real list" where
  "ema_loop k prev [] = []"
| "ema_loop k prev (v # vs) = (v * k + prev * (1 - k)) # ema_loop k (v * k + prev * (1 - k)) vs"

text \<open>
  \<^verbatim>\<open>calcEMASeries(values, period)\<close>.  On an empty array the source returns the one-element
  array \<^verbatim>\<open>[undefined]\<close>; no caller reads it (the signal loop starts at index 30), and the
  model returns the empty list there.
\<close>

definition calcEMASeries :: "real list \<Rightarrow> nat \<Rightarrow> real list" where
  "calcEMASeries values period =
     (case values of [] \<Rightarrow> []
      | v # vs \<Rightarrow> v # ema_loop (2 / (real period + 1)) v vs)"

definition calcMACDSeries :: "real list \<Rightarrow> macd_point list" where
  "calcMACDSeries closes =
     (let ema12 = calcEMASeries closes 12;
          ema26 = calcEMASeries closes 26;
          macdLine = map (\<lambda>(v, w). v - w) (zip ema12 ema26);
          sigl = calcEMASeries macdLine 9
      in map (\<lambda>(v, s). \<lparr>mp_macd = v, mp_signal = s, mp_hist = v - s\<rparr>) (zip macdLine sigl))"

text \<open>
  One element of \<^verbatim>\<open>calcBollingerSeries\<close>: the body of its loop at index \<open>i\<close>, in the
  arithmetic of the doubles.  \<^verbatim>\<open>slice.reduce((a, b) => a + b, 0)\<close> adds the closes of the
  window from the left, rounding each partial sum; \<^verbatim>\<open>(c - sma) ** 2\<close> is the rounded
  product of the rounded difference with itself.
\<close>

definition bollinger_at :: "real list \<Rightarrow> nat \<Rightarrow> nat \<Rightarrow> bollinger option" where
  "bollinger_at closes period i =
     (if i < period - 1 then None
      else
        let slice = map dbl (take period (drop (i + 1 - period) closes));
            sma = fdiv (foldl fadd 0 slice) (real period);
            std = fsqrt (fdiv (foldl (\<lambda>s c. fadd s (fmul (fsub c sma) (fsub c sma))) 0 slice)
                              (real period))
        in Some \<lparr>bb_upper = fadd sma (fmul 2 std),
                 bb_middle = sma,
                 bb_lower = fsub sma (fmul 2 std),
                 bb_percentB = (if std > 0
                                then fdiv (fsub (dbl (closes ! i)) (fsub sma (fmul 2 std)))
                                          (fmul 4 std)
                                else 1 / 2)\<rparr>)"

definition calcBollingerSeries :: "real list \<Rightarrow> nat \<Rightarrow> bollinger option list" where
  "calcBollingerSeries closes period = map (bollinger_at closes period) [0..<length closes]"

section \<open>Signal generation (backtest script)\<close>

text \<open>The factor chains of \<^verbatim>\<open>generateSignals\<close>, each the amount added to \<^verbatim>\<open>score\<close>.\<close>

definition bt_score_rsi :: "real option \<Rightarrow> real" where
  "bt_score_rsi r =
     (case r of None \<Rightarrow> 0
      | Some rsi \<Rightarrow>
          if rsi < 20 then 30
          else if rsi < 30 then 15
          else if rsi < 45 then 5
          else if rsi > 80 then - 30
          else if rsi > 70 then - 15
          else if rsi > 55 then - 5
          else 0)"

definition bt_score_macd :: "macd_point \<Rightarrow> real" where
  "bt_score_macd m =
     (if mp_hist m > 0 \<and> mp_macd m > 0 then 15
      else if mp_hist m > 0 then 10
      else if mp_hist m < 0 \<and> mp_macd m < 0 then - 15
      else if mp_hist m < 0 then - 10
      else 0)"

text \<open>Golden and death cross: two independent \<^verbatim>\<open>if\<close>s on the previous and the current bar.\<close>

definition bt_score_cross :: "macd_point \<Rightarrow> macd_point \<Rightarrow> real" where
  "bt_score_cross prevMacd m =
     (if mp_hist prevMacd \<le> 0 \<and> mp_hist m > 0 then 10 else 0)
     + (if mp_hist prevMacd \<ge> 0 \<and> mp_hist m < 0 then - 10 else 0)"

definition bt_score_bb :: "bollinger option \<Rightarrow> real" where
  "bt_score_bb b =
     (case b of None \<Rightarrow> 0
      | Some bb \<Rightarrow>
          if bb_percentB bb < 0 then 20
          else if bb_percentB bb < dbl (15 / 100) then 10
          else if bb_percentB bb > 1 then - 20
          else if bb_percentB bb > dbl (85 / 100) then - 10
          else 0)"

text \<open>The moving-average trend filter, active from index 50 on.\<close>

definition bt_score_trend :: "real list \<Rightarrow> nat \<Rightarrow> real" where
  "bt_score_trend closes i =
     (if i \<ge> 50 then
        let ema20 = sum_list (take 20 (drop (i - 19) closes)) / 20;
            ema50 = sum_list (take 50 (drop (i - 49) closes)) / 50
        in if closes ! i > ema20 \<and> ema20 > ema50 then 10
           else if closes ! i < ema20 \<and> ema20 < ema50 then - 10
           else 0
      else 0)"

text \<open>
  The value of \<^verbatim>\<open>score\<close> at the end of the loop body for index \<open>i\<close>.  \<^verbatim>\<open>rsiSeries\<close> is
  \<^verbatim>\<open>null\<close> only for fewer than 15 closes, where the loop (from index 30) has no iteration.
\<close>

definition raw_score ::
  "real list \<Rightarrow> real option list option \<Rightarrow> macd_point list \<Rightarrow> bollinger option list \<Rightarrow> nat \<Rightarrow> real"
where
  "raw_score closes rsiSeries macdSeries bbSeries i =
     bt_score_rsi (case rsiSeries of None \<Rightarrow> None | Some rs \<Rightarrow> rs ! i)
     + bt_score_macd (macdSeries ! i)
     + (if i > 0 then bt_score_cross (macdSeries ! (i - 1)) (macdSeries ! i) else 0)
     + bt_score_bb (bbSeries ! i)
     + bt_score_trend closes i"

definition generateSignals :: "candle list \<Rightarrow> signal list" where
  "generateSignals candles =
     (let closes = map candle_c candles;
          rsiSeries = bt_calcRSI closes 14;
          macdSeries = calcMACDSeries closes;
          bbSeries = calcBollingerSeries closes 20
      in map (\<lambda>i. \<lparr>sig_idx = i,
                    sig_ts = candle_ts (candles ! i),
                    sig_price = candle_c (candles ! i),
                    sig_score = max (- 100) (min 100 (raw_score closes rsiSeries macdSeries bbSeries i * 2))\<rparr>)
             [30..<length candles])"

section \<open>Backtest simulator\<close>

definition ENTRY_THRESHOLD :: real where "ENTRY_THRESHOLD = 20"
definition EXIT_THRESHOLD :: real where "EXIT_THRESHOLD = 5"
definition STOP_LOSS_PCT :: real where "STOP_LOSS_PCT = 3 / 100"
definition TAKE_PROFIT_PCT :: real where "TAKE_PROFIT_PCT = 6 / 100"
definition LOOKFORWARD :: nat where "LOOKFORWARD = 1"

definition bt_init :: bt_state where
  "bt_init = \<lparr>trades = [], position = None, totalPnl = 0, wins = 0, losses = 0,
              maxDrawdown = 0, peak = 0, equity = 0\<rparr>"

text \<open>
  Unrealised profit as a fraction of the entry price.  The entry price is the open of a
  candle, a positive number in exchange data.  An entry price of 0 would make the source
  divide by zero (NaN or an infinity); HOL's \<open>x / 0 = 0\<close> stands there instead.
\<close>

definition pnl_pct :: "position \<Rightarrow> real \<Rightarrow> real" where
  "pnl_pct p price =
     (if pos_side p = Long then (price - pos_entry p) / pos_entry p
      else (pos_entry p - price) / pos_entry p)"

text \<open>
  The bookkeeping block that the loop runs when it closes a position; the source has it twice,
  word for word, once for stop-loss/take-profit and once for the signal reversal.
\<close>

definition close_in_loop ::
  "bt_state \<Rightarrow> position \<Rightarrow> real \<Rightarrow> real \<Rightarrow> reason \<Rightarrow> signal \<Rightarrow> bt_state" where
  "close_in_loop st p pnlPct execPrice rsn sg =
     (let pnl = pnlPct * 100;
          equity' = equity st + pnl;
          peak' = (if equity' > peak st then equity' else peak st);
          dd = peak' - equity'
      in \<lparr>trades = trades st @
             [\<lparr>tr_side = pos_side p, tr_entry = pos_entry p, tr_exit = execPrice, tr_pnl = pnl,
               tr_reason = rsn, tr_entryIdx = pos_entryIdx p,
               tr_exitIdx = sig_idx sg + LOOKFORWARD,
               tr_holdBars = int (sig_idx sg) - int (pos_entryIdx p)\<rparr>],
          position = None,
          totalPnl = totalPnl st + pnl,
          wins = (if pnl > 0 then wins st + 1 else wins st),
          losses = (if pnl > 0 then losses st else losses st + 1),
          maxDrawdown = (if dd > maxDrawdown st then dd else maxDrawdown st),
          peak = peak',
          equity = equity'\<rparr>)"

text \<open>The entry block \<^verbatim>\<open>if (!position) { ... }\<close> at the end of the loop body.\<close>

definition try_open :: "bt_state \<Rightarrow> signal \<Rightarrow> real \<Rightarrow> bt_state" where
  "try_open st sg execPrice =
     (if position st = None then
        if sig_score sg \<ge> ENTRY_THRESHOLD then
          st\<lparr>position := Some \<lparr>pos_side = Long, pos_entry = execPrice,
                                pos_entryIdx = sig_idx sg + LOOKFORWARD, pos_score = sig_score sg\<rparr>\<rparr>
        else if sig_score sg \<le> - ENTRY_THRESHOLD then
          st\<lparr>position := Some \<lparr>pos_side = Short, pos_entry = execPrice,
                                pos_entryIdx = sig_idx sg + LOOKFORWARD, pos_score = sig_score sg\<rparr>\<rparr>
        else st
      else st)"

text \<open>
  One iteration of the loop of \<^verbatim>\<open>runBacktest\<close>.  After a stop-loss or take-profit close the
  source does \<^verbatim>\<open>continue\<close>; after a signal-reversal close it falls through to the entry block.
\<close>

definition bt_step :: "candle list \<Rightarrow> bt_state \<Rightarrow> signal \<Rightarrow> bt_state" where
  "bt_step candles st sg =
     (if \<not> sig_idx sg + LOOKFORWARD < length candles then st
      else
        let execPrice = candle_o (candles ! (sig_idx sg + LOOKFORWARD))
        in case position st of
             None \<Rightarrow> try_open st sg execPrice
           | Some p \<Rightarrow>
               let pnlPct = pnl_pct p execPrice
               in if pnlPct \<le> - STOP_LOSS_PCT \<or> pnlPct \<ge> TAKE_PROFIT_PCT then
                    close_in_loop st p pnlPct execPrice
                      (if pnlPct \<ge> TAKE_PROFIT_PCT then TakeProfit else StopLoss) sg
                  else if (pos_side p = Long \<and> sig_score sg < - EXIT_THRESHOLD)
                          \<or> (pos_side p = Short \<and> sig_score sg > EXIT_THRESHOLD) then
                    try_open (close_in_loop st p pnlPct execPrice SignalReversal sg) sg execPrice
                  else try_open st sg execPrice)"

fun bt_loop :: "candle list \<Rightarrow> bt_state \<Rightarrow> signal list \<Rightarrow> bt_state" where
  "bt_loop candles st [] = st"
| "bt_loop candles st (sg # rest) = bt_loop candles (bt_step candles st sg) rest"

text \<open>
  The forced close after the loop.  It adds to \<^verbatim>\<open>totalPnl\<close>, counts the win or loss and
  pushes the trade; \<^verbatim>\<open>equity\<close>, \<^verbatim>\<open>peak\<close> and \<^verbatim>\<open>maxDrawdown\<close> are not touched by it.
  A position exists only if some candle was read, so \<open>last candles\<close> is
  \<^verbatim>\<open>candles[candles.length - 1]\<close>.
\<close>

definition bt_finish :: "candle list \<Rightarrow> bt_state \<Rightarrow> bt_state" where
  "bt_finish candles st =
     (case position st of
        None \<Rightarrow> st
      | Some p \<Rightarrow>
          let lastPrice = candle_c (last candles);
              pnl = pnl_pct p lastPrice * 100
          in st\<lparr>trades := trades st @
                   [\<lparr>tr_side = pos_side p, tr_entry = pos_entry p, tr_exit = lastPrice,
                     tr_pnl = pnl, tr_reason = EndOfData, tr_entryIdx = pos_entryIdx p,
                     tr_exitIdx = length candles - 1,
                     tr_holdBars = int (length candles) - 1 - int (pos_entryIdx p)\<rparr>],
                 totalPnl := totalPnl st + pnl,
                 wins := (if pnl > 0 then wins st + 1 else wins st),
                 losses := (if pnl > 0 then losses st else losses st + 1)\<rparr>)"

text \<open>
  \<^verbatim>\<open>runBacktest(signals, candles)\<close>: the loop runs over \<^verbatim>\<open>i < signals.length - LOOKFORWARD\<close>.
  The result keeps the ledger and the numbers the summary is printed from
  (\<^verbatim>\<open>maxDrawdown.toFixed(2)\<close> is \<open>maxDrawdown\<close> of the returned state); the position is still
  in the state after the forced close, as in the source, and nothing reads it.
\<close>

definition runBacktest :: "signal list \<Rightarrow> candle list \<Rightarrow> bt_state" where
  "runBacktest signals candles =
     bt_finish candles (bt_loop candles bt_init (take (length signals - LOOKFORWARD) signals))"

text \<open>
  The part of \<^verbatim>\<open>main\<close> of the backtest script between the download and the printing: with
  fewer than 50 candles it prints that the data is insufficient and returns; otherwise it
  generates the signals and runs the simulation.
\<close>

datatype outcome = InsufficientData | Report bt_state

definition backtest_main :: "candle list \<Rightarrow> outcome" where
  "backtest_main candles =
     (if length candles < 50 then InsufficientData
      else Report (runBacktest (generateSignals candles) candles))"

section \<open>Live indicators (signal script)\<close>

text \<open>
  Second loop of the live \<^verbatim>\<open>calcRSI\<close>: the same Wilder update as in the backtest script, but
  only the last pair of averages is kept.
\<close>

fun rsi_smooth :: "nat \<Rightarrow> real \<Rightarrow> real \<Rightarrow> real list \<Rightarrow> real \<times> real" where
  "rsi_smooth period avgGain avgLoss [] = (avgGain, avgLoss)"
| "rsi_smooth period avgGain avgLoss (change # rest) =
     (if change > 0 then
        rsi_smooth period ((avgGain * (real period - 1) + change) / real period)
                          ((avgLoss * (real period - 1)) / real period) rest
      else
        rsi_smooth period ((avgGain * (real period - 1)) / real period)
                          ((avgLoss * (real period - 1) - change) / real period) rest)"

text \<open>\<^verbatim>\<open>calcRSI(candles, period)\<close> of the signal script: 50 for a too short series.\<close>

definition calcRSI :: "candle list \<Rightarrow> nat \<Rightarrow> real" where
  "calcRSI cs period =
     (if length cs < period + 1 then 50
      else
        let chs = changes (map candle_c cs);
            (g0, l0) = rsi_seed 0 0 (take period chs);
            (avgGain, avgLoss) = rsi_smooth period (g0 / real period) (l0 / real period) (drop period chs)
        in rsi_value avgGain avgLoss)"

text \<open>The loop of \<^verbatim>\<open>calcEMA\<close>, and of the signal line in \<^verbatim>\<open>calcMACD\<close>.\<close>

fun ema_fold :: "real \<Rightarrow> real \<Rightarrow> real list \<Rightarrow> real" where
  "ema_fold k ema [] = ema"
| "ema_fold k ema (v # vs) = ema_fold k (v * k + ema * (1 - k)) vs"

text \<open>\<^verbatim>\<open>calcEMA(values, period)\<close>; \<^verbatim>\<open>undefined\<close> (here \<open>None\<close>) on an empty array.\<close>

definition calcEMA :: "real list \<Rightarrow> nat \<Rightarrow> real option" where
  "calcEMA values period =
     (case values of [] \<Rightarrow> None
      | v # vs \<Rightarrow> Some (ema_fold (2 / (real period + 1)) v vs))"

text \<open>
  The first loop of \<^verbatim>\<open>calcMACD\<close>, started at index \<open>i\<close> with the two running averages: it
  pushes \<^verbatim>\<open>ema12 - ema26\<close> from index 25 on.
\<close>

fun macd_loop :: "real \<Rightarrow> real \<Rightarrow> nat \<Rightarrow> real list \<Rightarrow> real list" where
  "macd_loop ema12 ema26 i [] = []"
| "macd_loop ema12 ema26 i (x # xs) =
     (let e12 = x * (2 / 13) + ema12 * (1 - 2 / 13);
          e26 = x * (2 / 27) + ema26 * (1 - 2 / 27)
      in (if i \<ge> 25 then [e12 - e26] else []) @ macd_loop e12 e26 (Suc i) xs)"

definition macd_line :: "real list \<Rightarrow> real list" where
  "macd_line closes = (case closes of [] \<Rightarrow> [] | x # xs \<Rightarrow> macd_loop x x 1 xs)"

text \<open>
  \<^verbatim>\<open>calcMACD(candles)\<close>.  \<^verbatim>\<open>macdLine[macdLine.length - 1] || 0\<close> is 0 when the last value is
  missing or 0.
\<close>

definition calcMACD :: "candle list \<Rightarrow> macd_point" where
  "calcMACD cs =
     (if length cs < 26 then \<lparr>mp_macd = 0, mp_signal = 0, mp_hist = 0\<rparr>
      else
        let macdLine = macd_line (map candle_c cs)
        in if length macdLine < 9 then
             \<lparr>mp_macd = (if macdLine = [] \<or> last macdLine = 0 then 0 else last macdLine),
               mp_signal = 0, mp_hist = 0\<rparr>
           else
             let sigl = ema_fold (2 / 10) (hd macdLine) (tl macdLine);
                 macd = last macdLine
             in \<lparr>mp_macd = macd, mp_signal = sigl, mp_hist = macd - sigl\<rparr>)"

text \<open>
  \<^verbatim>\<open>calcBollinger(candles, period)\<close> of the signal script, in the arithmetic of the doubles
  (\<^verbatim>\<open>Math.pow(c - sma, 2)\<close> is the rounded product of the rounded difference with itself).
  Its \<^verbatim>\<open>percentB\<close> divides by \<^verbatim>\<open>4 * std\<close> without a guard; when the computed \<^verbatim>\<open>std\<close> is 0
  the field is NaN or an infinity.
\<close>

record live_bollinger =
  lb_upper :: real
  lb_middle :: real
  lb_lower :: real
  lb_percentB :: quotient

definition calcBollinger :: "candle list \<Rightarrow> nat \<Rightarrow> live_bollinger option" where
  "calcBollinger cs period =
     (if length cs < period then None
      else
        let closes = map (\<lambda>c. dbl (candle_c c)) (drop (length cs - period) cs);
            sma = fdiv (foldl fadd 0 closes) (real period);
            variance = fdiv (foldl (\<lambda>sum c. fadd sum (fmul (fsub c sma) (fsub c sma))) 0 closes)
                            (real period);
            std = fsqrt variance;
            currentPrice = dbl (candle_c (last cs))
        in Some \<lparr>lb_upper = fadd sma (fmul 2 std), lb_middle = sma,
                 lb_lower = fsub sma (fmul 2 std),
                 lb_percentB = js_div (fsub currentPrice (fsub sma (fmul 2 std))) (fmul 4 std)\<rparr>)"

section \<open>Multi-factor scorer (signal script)\<close>

text \<open>
  The object \<^verbatim>\<open>data\<close> read by \<^verbatim>\<open>scoreSignals\<close>; every field may be absent.  The field
  \<^verbatim>\<open>candles\<close> is named \<open>data_candles\<close>.
\<close>

record market_data =
  fundingRate :: "real option"
  fundingHistory :: "real list option"
  longShortCurrent :: "real option"
  longShortPrev :: "real option"
  fearGreed :: "real option"
  data_candles :: "candle list option"
  liqLong :: "real option"
  liqShort :: "real option"

text \<open>The keys of \<^verbatim>\<open>scores\<close> and of \<^verbatim>\<open>weights\<close>.\<close>

datatype factor = Funding | FundingTrend | LongShort | FearGreed | Rsi | Macd | Bollinger | Liquidation

text \<open>
  The factor chains take the doubles the scorer computes with; a decimal literal of the source
  is its nearest double.
\<close>

definition score_funding :: "real \<Rightarrow> real" where
  "score_funding fr =
     (if fr < dbl (- (1 / 1000)) then 30
      else if fr < dbl (- (3 / 10000)) then 15
      else if fr < dbl (5 / 10000) then 0
      else if fr < dbl (1 / 1000) then - 15
      else - 30)"

text \<open>
  The two means of the funding-rate trend, called with at least three samples:
  \<^verbatim>\<open>slice(0, 3)\<close> against \<^verbatim>\<open>slice(3)\<close>, each summed from the left and divided by its length.
\<close>

definition recentAvg :: "real list \<Rightarrow> real" where
  "recentAvg history = fdiv (foldl fadd 0 (take 3 history)) (real (length (take 3 history)))"

definition olderAvg :: "real list \<Rightarrow> real" where
  "olderAvg history =
     (if drop 3 history \<noteq> []
      then fdiv (foldl fadd 0 (drop 3 history)) (real (length (drop 3 history)))
      else recentAvg history)"

definition score_fundingTrend :: "real list \<Rightarrow> real" where
  "score_fundingTrend history =
     (if recentAvg history < olderAvg history \<and> recentAvg history < 0 then 20
      else if recentAvg history < olderAvg history then 10
      else if recentAvg history > olderAvg history \<and> recentAvg history > dbl (8 / 10000) then - 20
      else if recentAvg history > olderAvg history then - 10
      else 0)"

text \<open>
  Long/short ratio with its trend adjustment; \<^verbatim>\<open>if (data.longShortPrev)\<close> holds for a
  number other than 0, and \<^verbatim>\<open>change\<close> is the rounded difference of the two ratios.
\<close>

definition score_longShort :: "real \<Rightarrow> real option \<Rightarrow> real" where
  "score_longShort ls prev =
     (let score = (if ls > dbl (35 / 10) then - 25
                   else if ls > dbl (28 / 10) then - 10
                   else if ls < dbl (12 / 10) then 25
                   else if ls < dbl (18 / 10) then 10
                   else 0)
      in case prev of
           None \<Rightarrow> score
         | Some lsPrev \<Rightarrow>
             if lsPrev \<noteq> 0 \<and> \<bar>fsub ls lsPrev\<bar> > dbl (3 / 10)
             then score + (if fsub ls lsPrev > 0 then - 5 else 5)
             else score)"

definition score_fearGreed :: "real \<Rightarrow> real" where
  "score_fearGreed fg =
     (if fg \<le> 10 then 30
      else if fg \<le> 25 then 15
      else if fg \<le> 45 then 5
      else if fg \<le> 55 then 0
      else if fg \<le> 75 then - 5
      else if fg \<le> 90 then - 15
      else - 30)"

definition score_rsi :: "real \<Rightarrow> real" where
  "score_rsi rsi =
     (if rsi < 20 then 30
      else if rsi < 30 then 15
      else if rsi < 45 then 5
      else if rsi > 80 then - 30
      else if rsi > 70 then - 15
      else if rsi > 55 then - 5
      else 0)"

definition score_macd :: "macd_point \<Rightarrow> real" where
  "score_macd m =
     (if mp_hist m > 0 \<and> mp_macd m > 0 then 15
      else if mp_hist m > 0 then 10
      else if mp_hist m < 0 \<and> mp_macd m < 0 then - 15
      else if mp_hist m < 0 then - 10
      else 0)"

text \<open>
  Every comparison with NaN is false, so a NaN \<^verbatim>\<open>percentB\<close> scores 0; the negative infinity
  is below 0 and the positive one above 1.
\<close>

definition score_bollinger :: "quotient \<Rightarrow> real" where
  "score_bollinger pb =
     (case pb of
        NaN \<Rightarrow> 0
      | NegInf \<Rightarrow> 20
      | PosInf \<Rightarrow> - 20
      | Num percentB \<Rightarrow>
          if percentB < 0 then 20
          else if percentB < dbl (2 / 10) then 10
          else if percentB > 1 then - 20
          else if percentB > dbl (8 / 10) then - 10
          else 0)"

definition score_liquidation :: "real \<Rightarrow> real" where
  "score_liquidation longPct =
     (if longPct > dbl (8 / 10) then 15
      else if longPct > dbl (6 / 10) then 5
      else if longPct < dbl (2 / 10) then - 15
      else if longPct < dbl (4 / 10) then - 5
      else 0)"

text \<open>
  \<^verbatim>\<open>scoreSignals(data).scores\<close>: the object with one key per factor that fired, as a map.
  (\<^verbatim>\<open>details\<close>, the display strings, is left out.)  The funding rates, the two ratios and
  the two liquidation volumes are read as doubles; the fear-greed index is an integer
  (\<^verbatim>\<open>parseInt\<close>).  \<^verbatim>\<open>if (data.longShortCurrent)\<close> holds for a number other than 0.
\<close>

definition scoreSignals :: "market_data \<Rightarrow> (factor \<Rightarrow> real option)" where
  "scoreSignals d key =
     (case key of
        Funding \<Rightarrow> map_option (\<lambda>fr. score_funding (dbl fr)) (fundingRate d)
      | FundingTrend \<Rightarrow>
          (case fundingHistory d of
             Some h \<Rightarrow> if length h \<ge> 3 then Some (score_fundingTrend (map dbl h)) else None
           | None \<Rightarrow> None)
      | LongShort \<Rightarrow>
          (case longShortCurrent d of
             Some ls \<Rightarrow>
               if dbl ls \<noteq> 0 then Some (score_longShort (dbl ls) (map_option dbl (longShortPrev d)))
               else None
           | None \<Rightarrow> None)
      | FearGreed \<Rightarrow> map_option score_fearGreed (fearGreed d)
      | Rsi \<Rightarrow>
          (case data_candles d of
             Some cs \<Rightarrow> if length cs \<ge> 15 then Some (score_rsi (calcRSI cs 14)) else None
           | None \<Rightarrow> None)
      | Macd \<Rightarrow>
          (case data_candles d of
             Some cs \<Rightarrow> if length cs \<ge> 30 then Some (score_macd (calcMACD cs)) else None
           | None \<Rightarrow> None)
      | Bollinger \<Rightarrow>
          (case data_candles d of
             Some cs \<Rightarrow>
               if length cs \<ge> 20 then
                 (case calcBollinger cs 20 of
                    Some bb \<Rightarrow> Some (score_bollinger (lb_percentB bb))
                  | None \<Rightarrow> None)
               else None
           | None \<Rightarrow> None)
      | Liquidation \<Rightarrow>
          (case (liqLong d, liqShort d) of
             (Some ll, Some sl) \<Rightarrow>
               if fadd (dbl ll) (dbl sl) > 0
               then Some (score_liquidation (fdiv (dbl ll) (fadd (dbl ll) (dbl sl))))
               else None
           | _ \<Rightarrow> None))"

text \<open>The object \<^verbatim>\<open>weights\<close> of \<^verbatim>\<open>aggregate\<close>, in the order of its entries.\<close>

definition weights :: "(factor \<times> real) list" where
  "weights = [(Funding, 15), (FundingTrend, 10), (LongShort, 15), (FearGreed, 15),
              (Rsi, 15), (Macd, 10), (Bollinger, 10), (Liquidation, 10)]"

text \<open>\<^verbatim>\<open>Math.round\<close>: the nearest integer, a tie going up.\<close>

definition js_round :: "real \<Rightarrow> real" where
  "js_round x = of_int \<lfloor>x + 1 / 2\<rfloor>"

text \<open>The loop of \<^verbatim>\<open>aggregate\<close> over the entries of \<^verbatim>\<open>weights\<close>.\<close>

fun agg_loop :: "(factor \<Rightarrow> real option) \<Rightarrow> real \<Rightarrow> real \<Rightarrow> (factor \<times> real) list \<Rightarrow> real \<times> real" where
  "agg_loop scores totalScore totalWeight [] = (totalScore, totalWeight)"
| "agg_loop scores totalScore totalWeight ((key, weight) # rest) =
     (case scores key of
        Some s \<Rightarrow> agg_loop scores (totalScore + s * weight) (totalWeight + weight) rest
      | None \<Rightarrow> agg_loop scores totalScore totalWeight rest)"

definition aggregate :: "(factor \<Rightarrow> real option) \<Rightarrow> real" where
  "aggregate scores =
     (let (totalScore, totalWeight) = agg_loop scores 0 0 weights
      in if totalWeight = 0 then 0
         else js_round (totalScore / totalWeight * 100) / 100)"

section \<open>Notions used to state the properties\<close>

text \<open>The raw combined score of \<^verbatim>\<open>generateSignals\<close> at bar \<open>i\<close> of a candle series.\<close>

definition raw_score_at :: "candle list \<Rightarrow> nat \<Rightarrow> real" where
  "raw_score_at candles i =
     (let closes = map candle_c candles
      in raw_score closes (bt_calcRSI closes 14) (calcMACDSeries closes)
           (calcBollingerSeries closes 20) i)"

text \<open>
  The mean \<^verbatim>\<open>sma\<close> and the standard deviation \<^verbatim>\<open>std\<close> that \<^verbatim>\<open>calcBollingerSeries\<close>
  computes for the window ending at bar \<open>i\<close>.
\<close>

definition window_sma :: "real list \<Rightarrow> nat \<Rightarrow> nat \<Rightarrow> real" where
  "window_sma closes period i =
     fdiv (foldl fadd 0 (map dbl (take period (drop (i + 1 - period) closes)))) (real period)"

definition window_std :: "real list \<Rightarrow> nat \<Rightarrow> nat \<Rightarrow> real" where
  "window_std closes period i =
     (let slice = map dbl (take period (drop (i + 1 - period) closes));
          sma = fdiv (foldl fadd 0 slice) (real period)
      in fsqrt (fdiv (foldl (\<lambda>s c. fadd s (fmul (fsub c sma) (fsub c sma))) 0 slice)
                     (real period)))"

text \<open>
  What one loop iteration did, read off the state before and after it: the reason of the trade
  it appended to the ledger, if it appended one, and whether it left a position that was not
  there before.
\<close>

definition closed_by :: "bt_state \<Rightarrow> bt_state \<Rightarrow> reason option" where
  "closed_by st st' =
     (if length (trades st') > length (trades st) then Some (tr_reason (last (trades st')))
      else None)"

definition opened :: "bt_state \<Rightarrow> bt_state \<Rightarrow> bool" where
  "opened st st' \<longleftrightarrow> position st' \<noteq> None \<and> position st' \<noteq> position st"

definition trade_span :: "trade \<Rightarrow> reason \<times> nat \<times> nat" where
  "trade_span t = (tr_reason t, tr_entryIdx t, tr_exitIdx t)"

text \<open>
  A well-formed ledger: no trade exits before it entered, every trade closed inside the loop
  exits on a later bar than it entered, and a trade never enters before the one recorded
  before it has exited (so the holding intervals do not overlap).
\<close>

definition ledger_ok :: "trade list \<Rightarrow> bool" where
  "ledger_ok ts \<longleftrightarrow>
     (\<forall>t\<in>set ts. tr_entryIdx t \<le> tr_exitIdx t
                 \<and> (tr_reason t \<noteq> EndOfData \<longrightarrow> tr_entryIdx t < tr_exitIdx t))
     \<and> sorted_wrt (\<lambda>t u. tr_exitIdx t \<le> tr_entryIdx u) ts"

text \<open>
  Loop invariant of \<^verbatim>\<open>runBacktest\<close> for \<open>n\<close> candles, with \<open>b\<close> a bound on the bars acted on
  so far.
\<close>

definition bt_inv :: "nat \<Rightarrow> nat \<Rightarrow> bt_state \<Rightarrow> bool" where
  "bt_inv n b st \<longleftrightarrow>
     (\<forall>t\<in>set (trades st). tr_entryIdx t < tr_exitIdx t \<and> tr_exitIdx t \<le> b \<and> tr_reason t \<noteq> EndOfData)
     \<and> sorted_wrt (\<lambda>t u. tr_exitIdx t \<le> tr_entryIdx u) (trades st)
     \<and> (\<forall>p. position st = Some p \<longrightarrow>
           pos_entryIdx p \<le> b \<and> pos_entryIdx p < n \<and> (\<forall>t\<in>set (trades st). tr_exitIdx t \<le> pos_entryIdx p))"

text \<open>
  The drawdown of a sequence of trade results as the specification words it: the cumulative
  equity after \<open>k\<close> trades, its running peak (the starting equity 0 included), and the largest
  drop from the peak to the current equity.
\<close>

definition equity_after :: "real list \<Rightarrow> nat \<Rightarrow> real" where
  "equity_after pnls k = sum_list (take k pnls)"

definition peak_upto :: "real list \<Rightarrow> nat \<Rightarrow> real" where
  "peak_upto pnls k = Max (equity_after pnls ` {0..k})"

definition spec_maxDrawdown :: "real list \<Rightarrow> real" where
  "spec_maxDrawdown pnls = Max ((\<lambda>k. peak_upto pnls k - equity_after pnls k) ` {0..length pnls})"

text \<open>
  Loop invariant of \<^verbatim>\<open>runBacktest\<close> for the drawdown bookkeeping: the three running
  numbers are those of the trades closed so far, none of which is a forced close.
\<close>

definition dd_inv :: "bt_state \<Rightarrow> bool" where
  "dd_inv st \<longleftrightarrow>
     (let pn = map tr_pnl (trades st)
      in equity st = sum_list pn \<and> peak st = peak_upto pn (length pn)
         \<and> maxDrawdown st = spec_maxDrawdown pn)
     \<and> (\<forall>t\<in>set (trades st). tr_reason t \<noteq> EndOfData)"

text \<open>
  The weighted mean of the specification, \<open>\<Sum> score\<^sub>i * weight\<^sub>i / \<Sum> weight\<^sub>i\<close> over the factors
  present, with the weight the specification lists for each factor.
\<close>

definition weight_of :: "factor \<Rightarrow> real" where
  "weight_of k =
     (case k of Funding \<Rightarrow> 15 | FundingTrend \<Rightarrow> 10 | LongShort \<Rightarrow> 15 | FearGreed \<Rightarrow> 15
      | Rsi \<Rightarrow> 15 | Macd \<Rightarrow> 10 | Bollinger \<Rightarrow> 10 | Liquidation \<Rightarrow> 10)"

definition weighted_mean :: "(factor \<Rightarrow> real option) \<Rightarrow> real" where
  "weighted_mean scores =
     (\<Sum>k\<in>dom scores. the (scores k) * weight_of k) / (\<Sum>k\<in>dom scores. weight_of k)"


text \<open>
  The MACD value of the first \<open>n\<close> closes as the specification words it: EMA(12) minus
  EMA(26), each computed by \<^verbatim>\<open>calcEMA\<close>.
\<close>

definition macd_at :: "real list \<Rightarrow> nat \<Rightarrow> real option" where
  "macd_at closes n =
     (case (calcEMA (take n closes) 12, calcEMA (take n closes) 26) of
        (Some e12, Some e26) \<Rightarrow> Some (e12 - e26)
      | _ \<Rightarrow> None)"

section \<open>Concrete inputs\<close>

definition mk_candle :: "nat \<Rightarrow> real \<Rightarrow> real \<Rightarrow> candle" where
  "mk_candle i opn cls =
     \<lparr>candle_ts = int i, candle_o = opn, candle_h = max opn cls, candle_l = min opn cls,
      candle_c = cls, candle_vol = 1\<rparr>"

text \<open>Fifty bars closing at 100 and opening at 100.\<close>

definition cs_flat :: "candle list" where
  "cs_flat = map (\<lambda>i. mk_candle i 100 100) [0..<50]"

text \<open>Fifty bars closing at 100 and opening at 100, except that bar 48 opens at 110.\<close>

definition cs_stop :: "candle list" where
  "cs_stop = map (\<lambda>i. mk_candle i (if i = 48 then 110 else 100) 100) [0..<50]"

text \<open>Fifty bars opening at 90 and closing at 100.\<close>

definition cs_dd :: "candle list" where
  "cs_dd = map (\<lambda>i. mk_candle i 90 100) [0..<50]"

text \<open>Thirty-four bars closing at 100, the last one at 101.\<close>

definition cs34 :: "candle list" where
  "cs34 = map (\<lambda>i. mk_candle i 100 100) [0..<33] @ [mk_candle 33 100 101]"

text \<open>A bearish signal at bar 30, a bullish one at bar 31, a bearish one at bar 47.\<close>

definition sg_short :: signal where
  "sg_short = \<lparr>sig_idx = 30, sig_ts = 30, sig_price = 100, sig_score = - 60\<rparr>"

definition sg_long :: signal where
  "sg_long = \<lparr>sig_idx = 31, sig_ts = 31, sig_price = 100, sig_score = 60\<rparr>"

definition sg_late :: signal where
  "sg_late = \<lparr>sig_idx = 47, sig_ts = 47, sig_price = 100, sig_score = - 60\<rparr>"

text \<open>The simulator state after the bearish signal at bar 30 on each of two series.\<close>

definition st_short :: bt_state where
  "st_short = bt_step cs_flat bt_init sg_short"

definition st_short' :: bt_state where
  "st_short' = bt_step cs_stop bt_init sg_short"

text \<open>A market snapshot with every field absent.\<close>

definition no_data :: market_data where
  "no_data = \<lparr>fundingRate = None, fundingHistory = None, longShortCurrent = None,
              longShortPrev = None, fearGreed = None, data_candles = None,
              liqLong = None, liqShort = None\<rparr>"

text \<open>Snapshots with a single field present, and a score object with two factors.\<close>

definition funding_only :: market_data where
  "funding_only = no_data\<lparr>fundingRate := Some (- (2 / 1000))\<rparr>"

definition fear_only :: market_data where
  "fear_only = no_data\<lparr>fearGreed := Some 5\<rparr>"

definition two_scores :: "factor \<Rightarrow> real option" where
  "two_scores = (\<lambda>k. None)(FearGreed := Some 30, Rsi := Some 30)"




section \<open>Rounding to doubles\<close>

lemma rhe_near: "\<bar>y - of_int m\<bar> < 1 / 2 \<Longrightarrow> rhe y = m"
proof -
  assume a: "\<bar>y - of_int m\<bar> < 1 / 2"
  show ?thesis
  proof (cases "of_int m \<le> y")
    case True
    then have "\<lfloor>y\<rfloor> = m" using a by (intro floor_unique) linarith+
    then show ?thesis using a True by (simp add: rhe_def Let_def)
  next
    case False
    then have "\<lfloor>y\<rfloor> = m - 1" using a by (intro floor_unique) (simp; linarith)+
    then show ?thesis using a False by (simp add: rhe_def Let_def; linarith)
  qed
qed

lemma rhe_of_int [simp]: "rhe (of_int m) = m"
  by (rule rhe_near) simp

lemma rhe_tie_down: "y = of_int m + 1 / 2 \<Longrightarrow> even m \<Longrightarrow> rhe y = m"
proof -
  assume y: "y = of_int m + 1 / 2" and e: "even m"
  have "\<lfloor>y\<rfloor> = m" unfolding y by (intro floor_unique) simp_all
  then show ?thesis using e by (simp add: rhe_def Let_def y)
qed

lemma rhe_tie_up: "y = of_int m - 1 / 2 \<Longrightarrow> even m \<Longrightarrow> rhe y = m"
proof -
  assume y: "y = of_int m - 1 / 2" and e: "even m"
  have "\<lfloor>y\<rfloor> = m - 1" unfolding y by (intro floor_unique) simp_all
  then show ?thesis using e by (simp add: rhe_def Let_def y)
qed

lemma dexp_eq:
  assumes "2 powi k \<le> \<bar>x\<bar>" and "\<bar>x\<bar> < 2 powi (k + 1)"
  shows "dexp x = max k (- 1022) - 52"
proof -
  have pos: "\<bar>x\<bar> > 0" using assms(1) by (smt (verit) zero_less_power_int)
  have p1: "(2::real) powr (real_of_int k) = 2 powi k"
    by (rule powr_real_of_int') simp_all
  have "(2::real) powr (real_of_int (k + 1)) = 2 powi (k + 1)"
    by (rule powr_real_of_int') simp_all
  then have p2: "(2::real) powr (real_of_int k + 1) = 2 powi (k + 1)" by simp
  have "2 powr (real_of_int k) \<le> \<bar>x\<bar>" "\<bar>x\<bar> < 2 powr (real_of_int k + 1)"
    unfolding p1 p2 using assms by simp_all
  then have "\<lfloor>log 2 \<bar>x\<bar>\<rfloor> = k" using pos by (simp add: floor_log_eq_powr_iff)
  then show ?thesis by (simp add: dexp_def)
qed

lemma dbl_0 [simp]: "dbl 0 = 0" by (simp add: dbl_def)

lemma dbl_near:
  assumes "2 powi k \<le> \<bar>x\<bar>" and "\<bar>x\<bar> < 2 powi (k + 1)" and "- 1022 \<le> k"
    and "\<bar>x / 2 powi (k - 52) - of_int m\<bar> < 1 / 2"
  shows "dbl x = of_int m * 2 powi (k - 52)"
proof -
  have "x \<noteq> 0" using assms(1) by (smt (verit) zero_less_power_int)
  moreover have "dexp x = k - 52" using dexp_eq[OF assms(1,2)] assms(3) by simp
  ultimately show ?thesis using rhe_near[OF assms(4)] by (simp add: dbl_def)
qed



lemma floor_log2_bounds:
  assumes "x \<noteq> 0"
  shows "2 powi \<lfloor>log 2 \<bar>x\<bar>\<rfloor> \<le> \<bar>x\<bar>" and "\<bar>x\<bar> < 2 powi (\<lfloor>log 2 \<bar>x\<bar>\<rfloor> + 1)"
proof -
  let ?k = "\<lfloor>log 2 \<bar>x\<bar>\<rfloor>"
  have pos: "\<bar>x\<bar> > 0" using assms by simp
  have p1: "(2::real) powr (real_of_int ?k) = 2 powi ?k"
    by (rule powr_real_of_int') simp_all
  have "(2::real) powr (real_of_int (?k + 1)) = 2 powi (?k + 1)"
    by (rule powr_real_of_int') simp_all
  then have p2: "(2::real) powr (real_of_int ?k + 1) = 2 powi (?k + 1)" by simp
  have "2 powr (real_of_int ?k) \<le> \<bar>x\<bar> \<and> \<bar>x\<bar> < 2 powr (real_of_int ?k + 1)"
    using floor_log_eq_powr_iff[of "\<bar>x\<bar>" 2 ?k] pos by simp
  then show "2 powi ?k \<le> \<bar>x\<bar>" and "\<bar>x\<bar> < 2 powi (?k + 1)"
    unfolding p1 p2 by simp_all
qed

lemma dexp_ge: "- 1074 \<le> dexp x"
  by (simp add: dexp_def)

lemma rhe_ge_one: "1 \<le> y \<Longrightarrow> 1 \<le> rhe y"
proof -
  assume "1 \<le> y"
  then have "1 \<le> \<lfloor>y\<rfloor>" by (simp add: le_floor_iff)
  then show ?thesis by (simp add: rhe_def Let_def)
qed

lemma rhe_nonneg: "0 \<le> y \<Longrightarrow> 0 \<le> rhe y"
proof -
  assume "0 \<le> y"
  then have "0 \<le> \<lfloor>y\<rfloor>" by (simp add: le_floor_iff)
  then show ?thesis by (simp add: rhe_def Let_def)
qed

lemma dbl_nonneg: "0 \<le> x \<Longrightarrow> 0 \<le> dbl x"
proof -
  assume "0 \<le> x"
  then have "0 \<le> x / 2 powi dexp x" by simp
  then have "0 \<le> rhe (x / 2 powi dexp x)" by (rule rhe_nonneg)
  then show ?thesis by (simp add: dbl_def)
qed

text \<open>A positive value of dbl is at least the smallest positive double.\<close>

lemma dbl_pos_ge:
  assumes "0 < dbl x"
  shows "2 powi (- 1074) \<le> dbl x"
proof -
  from assms have nz: "x \<noteq> 0" by (auto simp: dbl_def)
  let ?m = "rhe (x / 2 powi dexp x)"
  have d: "dbl x = of_int ?m * 2 powi dexp x" using nz by (simp add: dbl_def)
  have "0 < of_int ?m * (2::real) powi dexp x" using assms d by simp
  moreover have "0 < (2::real) powi dexp x" by simp
  ultimately have "0 < (of_int ?m :: real)" by (simp add: zero_less_mult_iff)
  then have "0 < ?m" by simp
  then have one: "1 \<le> (of_int ?m :: real)" by linarith
  have "1 * (2::real) powi dexp x \<le> of_int ?m * 2 powi dexp x"
    by (rule mult_right_mono[OF one]) simp
  then have "(2::real) powi dexp x \<le> of_int ?m * 2 powi dexp x" by simp
  moreover have "(2::real) powi (- 1074) \<le> 2 powi dexp x"
    using dexp_ge[of x] by (intro power_int_increasing) simp_all
  ultimately show ?thesis using d by linarith
qed

lemma dbl_pos:
  assumes "2 powi (- 1074) \<le> x"
  shows "0 < dbl x"
proof -
  have xpos: "0 < x" using assms by (smt (verit) zero_less_power_int)
  then have nz: "x \<noteq> 0" by simp
  let ?k = "\<lfloor>log 2 \<bar>x\<bar>\<rfloor>"
  have "1 \<le> x / 2 powi dexp x"
  proof (cases "- 1022 \<le> ?k")
    case True
    then have e: "dexp x = ?k - 52" by (simp add: dexp_def)
    have "(2::real) powi (?k - 52) \<le> 2 powi ?k" by (intro power_int_increasing) simp_all
    also have "\<dots> \<le> x" using floor_log2_bounds(1)[OF nz] xpos by simp
    finally show ?thesis unfolding e by (simp add: pos_le_divide_eq)
  next
    case False
    then have e: "dexp x = - 1074" by (simp add: dexp_def)
    show ?thesis unfolding e using assms by (simp add: pos_le_divide_eq)
  qed
  then have "1 \<le> rhe (x / 2 powi dexp x)" by (rule rhe_ge_one)
  then have "0 < (of_int (rhe (x / 2 powi dexp x)) :: real) * 2 powi dexp x"
    by (intro mult_pos_pos) simp_all
  then show ?thesis using nz by (simp add: dbl_def)
qed




lemma scale_aux: "(of_int m * 2 powi (d + int t)) / 2 powi d = (of_int (m * 2 ^ t) :: real)"
  by (simp add: power_int_add)

lemma dbl_exact_aux:
  assumes x: "x = of_int m * 2 powi e" and de: "dexp x \<le> e"
  shows "dbl x = x"
proof (cases "x = 0")
  case True
  then show ?thesis by simp
next
  case False
  define d where "d = dexp x"
  define t where "t = nat (e - d)"
  have te: "e = d + int t" using de by (simp add: t_def d_def)
  have q: "x / 2 powi d = of_int (m * 2 ^ t)"
    unfolding x te by (rule scale_aux)
  have "dbl x = of_int (rhe (x / 2 powi d)) * 2 powi d"
    using False by (simp add: dbl_def d_def)
  also have "\<dots> = of_int (m * 2 ^ t) * 2 powi d" by (simp only: q rhe_of_int)
  also have "\<dots> = x / 2 powi d * 2 powi d" by (simp only: q)
  also have "\<dots> = x" by simp
  finally show ?thesis .
qed

text \<open>Values with at most 53 significant bits above the smallest quantum are fixed.\<close>

lemma dbl_exact:
  assumes "\<bar>m\<bar> < 2 ^ 53" and "- 1074 \<le> e"
  shows "dbl (of_int m * 2 powi e) = of_int m * 2 powi e"
proof (cases "m = 0")
  case True
  then show ?thesis by simp
next
  case False
  define x :: real where "x = of_int m * 2 powi e"
  have nz: "x \<noteq> 0" using False by (simp add: x_def)
  define k where "k = \<lfloor>log 2 \<bar>x\<bar>\<rfloor>"
  have lo: "(2::real) powi k \<le> \<bar>x\<bar>" unfolding k_def by (rule floor_log2_bounds(1)[OF nz])
  have "real_of_int \<bar>m\<bar> < real_of_int (2 ^ 53)" using assms(1) by (simp only: of_int_less_iff)
  then have m53: "\<bar>real_of_int m\<bar> < 2 ^ 53" by simp
  have p: "0 < (2::real) powi e" by simp
  have "\<bar>x\<bar> = \<bar>real_of_int m\<bar> * 2 powi e" by (simp add: x_def abs_mult)
  also have "\<dots> < 2 ^ 53 * 2 powi e" by (rule mult_strict_right_mono[OF m53 p])
  also have "\<dots> = 2 powi (53 + e)" by (simp add: power_int_add)
  finally have hi: "\<bar>x\<bar> < 2 powi (53 + e)" .
  have "k < 53 + e"
  proof (rule ccontr)
    assume "\<not> k < 53 + e"
    then have "53 + e \<le> k" by simp
    then have "(2::real) powi (53 + e) \<le> 2 powi k" by (intro power_int_increasing) simp_all
    with lo hi show False by linarith
  qed
  then have de: "dexp x \<le> e" using assms(2) by (simp add: dexp_def k_def)
  have "dbl x = x" by (rule dbl_exact_aux[OF x_def de])
  then show ?thesis by (simp only: x_def)
qed

lemma dbl_of_int: "\<bar>m\<bar> < 2 ^ 53 \<Longrightarrow> dbl (of_int m) = of_int m"
  using dbl_exact[of m 0] by simp

lemma dbl_of_nat: "n < 2 ^ 53 \<Longrightarrow> dbl (of_nat n) = of_nat n"
  using dbl_of_int[of "int n"] by simp

lemma dbl_numeral: "(numeral n :: int) < 2 ^ 53 \<Longrightarrow> dbl (numeral n) = numeral n"
  using dbl_of_int[of "numeral n"] by simp

lemma dbl_neg_numeral: "(numeral n :: int) < 2 ^ 53 \<Longrightarrow> dbl (- numeral n) = - numeral n"
  using dbl_of_int[of "- numeral n"] by simp

lemma dbl_1: "dbl 1 = 1"
  using dbl_of_int[of 1] by simp


text \<open>Evaluation rules: a double is named by its significand \<open>m\<close> and the exponent \<open>k\<close> of
  its binade.\<close>

lemma dbl_nearI:
  assumes "2 powi k \<le> \<bar>x\<bar>" and "\<bar>x\<bar> < 2 powi (k + 1)" and "- 1022 \<le> k"
    and "\<bar>x / 2 powi (k - 52) - of_int m\<bar> < 1 / 2"
    and "v = of_int m * 2 powi (k - 52)"
  shows "dbl x = v"
  unfolding assms(5) by (rule dbl_near[OF assms(1-4)])

lemma dbl_tie:
  assumes "2 powi k \<le> \<bar>x\<bar>" and "\<bar>x\<bar> < 2 powi (k + 1)" and "- 1022 \<le> k"
    and "x / 2 powi (k - 52) = of_int m + 1 / 2 \<or> x / 2 powi (k - 52) = of_int m - 1 / 2"
    and "even m"
    and "v = of_int m * 2 powi (k - 52)"
  shows "dbl x = v"
proof -
  have "x \<noteq> 0" using assms(1) by (smt (verit) zero_less_power_int)
  moreover have "dexp x = k - 52" using dexp_eq[OF assms(1,2)] assms(3) by simp
  moreover have "rhe (x / 2 powi (k - 52)) = m"
    using assms(4) rhe_tie_down[OF _ assms(5)] rhe_tie_up[OF _ assms(5)] by blast
  ultimately show ?thesis unfolding assms(6) by (simp add: dbl_def)
qed

lemma dbl_exactI:
  assumes "x = of_int m * 2 powi e" and "\<bar>m\<bar> < 2 ^ 53" and "- 1074 \<le> e"
  shows "dbl x = x"
  unfolding assms(1) by (rule dbl_exact[OF assms(2,3)])

text \<open>Unfolding the operations; integers below \<open>2 ^ 53\<close> are doubles.\<close>

lemmas fl_defs = fadd_def fsub_def fmul_def fdiv_def fsqrt_def

lemmas dbl_ints = dbl_numeral dbl_neg_numeral dbl_1

lemma replicate_20: "replicate 20 x = [x, x, x, x, x, x, x, x, x, x, x, x, x, x, x, x, x, x, x, x]"
  by (simp add: numeral_eq_Suc)


section \<open>The doubles of the decimal literals\<close>

text \<open>The nearest double of each decimal literal of the two scripts and of the decimal inputs
  evaluated below, as a fraction.\<close>

lemma dbl_m1_1000: "dbl (- (1 / 1000)) = - (1152921504606847 / 1152921504606846976)"
  by (rule dbl_nearI[where k = "- 10" and m = "- 4611686018427388"]) (simp_all add: power_int_minus)

lemma dbl_m3_10000: "dbl (- (3 / 10000)) = - (5534023222112865 / 18446744073709551616)"
  by (rule dbl_nearI[where k = "- 12" and m = "- 5534023222112865"]) (simp_all add: power_int_minus)

lemma dbl_p5_10000: "dbl (1 / 2000) = 1152921504606847 / 2305843009213693952"
  by (rule dbl_nearI[where k = "- 11" and m = "4611686018427388"]) (simp_all add: power_int_minus)

lemma dbl_p1_1000: "dbl (1 / 1000) = 1152921504606847 / 1152921504606846976"
  by (rule dbl_nearI[where k = "- 10" and m = "4611686018427388"]) (simp_all add: power_int_minus)

lemma dbl_p8_10000: "dbl (1 / 1250) = 7378697629483821 / 9223372036854775808"
  by (rule dbl_nearI[where k = "- 11" and m = "7378697629483821"]) (simp_all add: power_int_minus)

lemma dbl_p35_10: "dbl (7 / 2) = 7 / 2"
  by (rule dbl_nearI[where k = "1" and m = "7881299347898368"]) (simp_all add: power_int_minus)

lemma dbl_p28_10: "dbl (14 / 5) = 3152519739159347 / 1125899906842624"
  by (rule dbl_nearI[where k = "1" and m = "6305039478318694"]) (simp_all add: power_int_minus)

lemma dbl_p12_10: "dbl (6 / 5) = 5404319552844595 / 4503599627370496"
  by (rule dbl_nearI[where k = "0" and m = "5404319552844595"]) (simp_all add: power_int_minus)

lemma dbl_p18_10: "dbl (9 / 5) = 8106479329266893 / 4503599627370496"
  by (rule dbl_nearI[where k = "0" and m = "8106479329266893"]) (simp_all add: power_int_minus)

lemma dbl_p3_10: "dbl (3 / 10) = 5404319552844595 / 18014398509481984"
  by (rule dbl_nearI[where k = "- 2" and m = "5404319552844595"]) (simp_all add: power_int_minus)

lemma dbl_p2_10: "dbl (1 / 5) = 3602879701896397 / 18014398509481984"
  by (rule dbl_nearI[where k = "- 3" and m = "7205759403792794"]) (simp_all add: power_int_minus)

lemma dbl_p8_10: "dbl (4 / 5) = 3602879701896397 / 4503599627370496"
  by (rule dbl_nearI[where k = "- 1" and m = "7205759403792794"]) (simp_all add: power_int_minus)

lemma dbl_p6_10: "dbl (3 / 5) = 5404319552844595 / 9007199254740992"
  by (rule dbl_nearI[where k = "- 1" and m = "5404319552844595"]) (simp_all add: power_int_minus)

lemma dbl_p4_10: "dbl (2 / 5) = 3602879701896397 / 9007199254740992"
  by (rule dbl_nearI[where k = "- 2" and m = "7205759403792794"]) (simp_all add: power_int_minus)

lemma dbl_p15_100: "dbl (3 / 20) = 5404319552844595 / 36028797018963968"
  by (rule dbl_nearI[where k = "- 3" and m = "5404319552844595"]) (simp_all add: power_int_minus)

lemma dbl_p85_100: "dbl (17 / 20) = 7656119366529843 / 9007199254740992"
  by (rule dbl_nearI[where k = "- 1" and m = "7656119366529843"]) (simp_all add: power_int_minus)

lemma dbl_m2_1000: "dbl (- (1 / 500)) = - (1152921504606847 / 576460752303423488)"
  by (rule dbl_nearI[where k = "- 9" and m = "- 4611686018427388"]) (simp_all add: power_int_minus)

lemma dbl_p17_10: "dbl (17 / 10) = 7656119366529843 / 4503599627370496"
  by (rule dbl_nearI[where k = "0" and m = "7656119366529843"]) (simp_all add: power_int_minus)

lemma dbl_p1_10: "dbl (1 / 10) = 3602879701896397 / 36028797018963968"
  by (rule dbl_nearI[where k = "- 4" and m = "7205759403792794"]) (simp_all add: power_int_minus)

lemma dbl_m18_10000: "dbl (- (9 / 5000)) = - (4150517416584649 / 2305843009213693952)"
  by (rule dbl_nearI[where k = "- 10" and m = "- 8301034833169298"]) (simp_all add: power_int_minus)

lemmas dbl_consts =
  dbl_m1_1000 dbl_m3_10000 dbl_p5_10000 dbl_p1_1000 dbl_p8_10000 dbl_p35_10
  dbl_p28_10 dbl_p12_10 dbl_p18_10 dbl_p3_10 dbl_p2_10 dbl_p8_10
  dbl_p6_10 dbl_p4_10 dbl_p15_100 dbl_p85_100 dbl_m2_1000 dbl_p17_10
  dbl_p1_10 dbl_m18_10000

section \<open>A series of equal closes\<close>

text \<open>
  On a series whose closes are all equal the indicators can be computed in closed form: RSI is
  100 (no losses), the MACD line, its signal and the histogram are 0, and the Bollinger bands
  collapse onto the price.  Every generated signal then has the score \<open>-60\<close>.
\<close>

lemma zip_replicate_same: "zip (replicate n a) (replicate n b) = replicate n (a, b)"
  by (induction n) simp_all

lemma changes_replicate: "changes (replicate n c) = replicate (n - 1) 0"
proof (cases n)
  case 0
  then show ?thesis by (simp add: changes_def)
next
  case (Suc m)
  have "zip (replicate m c) (replicate (Suc m) c) = replicate m (c, c)"
    by (induction m) simp_all
  then show ?thesis using Suc by (simp add: changes_def)
qed

lemma rsi_seed_zeros: "rsi_seed g l (replicate k 0) = (g, l)"
  by (induction k) simp_all

lemma rsi_wilder_zeros: "rsi_wilder p 0 0 (replicate k 0) = replicate k 100"
  by (induction k) (simp_all add: rsi_value_def)

lemma bt_calcRSI_flat:
  assumes "15 \<le> n"
  shows "bt_calcRSI (replicate n c) 14 = Some (replicate 15 None @ replicate (n - 14) (Some 100))"
proof -
  have "n - 14 = Suc (n - 15)" using assms by simp
  then have "replicate (n - 14) (Some (100::real)) = Some 100 # replicate (n - 15) (Some 100)"
    by simp
  moreover have "min 14 (n - Suc 0) = 14" using assms by simp
  ultimately show ?thesis
    using assms
    by (simp add: bt_calcRSI_def changes_replicate rsi_seed_zeros rsi_wilder_zeros rsi_value_def)
qed

lemma ema_loop_flat: "ema_loop k c (replicate m c) = replicate m c"
  by (induction m) (simp_all add: algebra_simps)

lemma calcEMASeries_flat: "calcEMASeries (replicate n c) p = replicate n c"
  by (cases n) (simp_all add: calcEMASeries_def ema_loop_flat)

lemma calcMACDSeries_flat:
  "calcMACDSeries (replicate n c) = replicate n \<lparr>mp_macd = 0, mp_signal = 0, mp_hist = 0\<rparr>"
  by (simp add: calcMACDSeries_def calcEMASeries_flat zip_replicate_same)

text \<open>
  Sums of integers are exact below \<open>2 ^ 53\<close>, so on a window of equal integer closes the mean
  is the close and the computed deviation is 0.
\<close>

lemma foldl_fadd_int:
  "\<bar>a\<bar> + int j * \<bar>m\<bar> < 2 ^ 53 \<Longrightarrow>
     foldl fadd (of_int a) (replicate j (of_int m)) = of_int (a + int j * m)"
proof (induction j arbitrary: a)
  case 0
  then show ?case by simp
next
  case (Suc j)
  have b: "\<bar>a + m\<bar> + int j * \<bar>m\<bar> < 2 ^ 53"
    using Suc.prems by (simp add: algebra_simps)
  have "0 \<le> int j * \<bar>m\<bar>" by simp
  with b have "\<bar>a + m\<bar> < 2 ^ 53" by linarith
  then have "fadd (of_int a) (of_int m) = of_int (a + m)"
    unfolding fadd_def using dbl_of_int[of "a + m"] by simp
  then show ?case using Suc.IH[OF b] by (simp add: algebra_simps)
qed

lemma foldl_dev_const:
  "foldl (\<lambda>s c. fadd s (fmul (fsub c v) (fsub c v))) 0 (replicate n v) = 0"
  by (induction n) (simp_all add: fadd_def fmul_def fsub_def)

lemma bollinger_at_const_window:
  assumes "0 < period" and "period - 1 \<le> i" and "int period * \<bar>m\<bar> < 2 ^ 53"
    and "take period (drop (i + 1 - period) closes) = replicate period (of_int m)"
  shows "bollinger_at closes period i =
           Some \<lparr>bb_upper = of_int m, bb_middle = of_int m, bb_lower = of_int m,
                 bb_percentB = 1 / 2\<rparr>"
proof -
  have "0 \<le> \<bar>m\<bar> * (int period - 1)" using assms(1) by simp
  then have "\<bar>m\<bar> \<le> int period * \<bar>m\<bar>" by (simp add: algebra_simps)
  then have m: "\<bar>m\<bar> < 2 ^ 53" using assms(3) by linarith
  have d: "dbl (of_int m) = of_int m" by (rule dbl_of_int[OF m])
  have sl: "map dbl (replicate period (real_of_int m)) = replicate period (of_int m)"
    by (simp add: d)
  have "foldl fadd (of_int 0) (replicate period (real_of_int m)) = of_int (0 + int period * m)"
    by (rule foldl_fadd_int) (use assms(3) in simp)
  then have sum: "foldl fadd 0 (replicate period (real_of_int m)) = real period * of_int m"
    by simp
  have sma: "fdiv (real period * of_int m) (real period) = of_int m"
    using assms(1) by (simp add: fdiv_def d)
  show ?thesis
    unfolding bollinger_at_def Let_def assms(4) sl sum sma foldl_dev_const
    using assms(2) by (simp add: fdiv_def fsqrt_def fmul_def fadd_def fsub_def d)
qed

lemma bollinger_at_flat:
  assumes "19 \<le> i" and "i < n" and "\<bar>m\<bar> < 2 ^ 48"
  shows "bollinger_at (replicate n (of_int m)) 20 i =
           Some \<lparr>bb_upper = of_int m, bb_middle = of_int m, bb_lower = of_int m,
                 bb_percentB = 1 / 2\<rparr>"
proof -
  have "take 20 (drop (i + 1 - 20) (replicate n (real_of_int m))) = replicate 20 (of_int m)"
    using assms by (simp add: min_def)
  then show ?thesis using assms by (intro bollinger_at_const_window) simp_all
qed

lemma bt_score_trend_flat:
  assumes "i < n"
  shows "bt_score_trend (replicate n c) i = 0"
proof (cases "50 \<le> i")
  case True
  then have "min 20 (n - (i - 19)) = 20" and "min 50 (n - (i - 49)) = 50"
    using assms by simp_all
  then show ?thesis
    using assms by (simp add: bt_score_trend_def Let_def sum_list_replicate)
next
  case False
  then show ?thesis by (simp add: bt_score_trend_def)
qed

lemma bb_thresholds: "(0::real) < dbl (15 / 100)" "dbl (15 / 100) \<le> 1 / 2" "1 / 2 \<le> dbl (85 / 100)"
proof -
  have a: "dbl (15 / 100) = 5404319552844595 / 36028797018963968"
    by (rule dbl_nearI[where k = "- 3" and m = "5404319552844595"]) (simp_all add: power_int_minus)
  have b: "dbl (85 / 100) = 7656119366529843 / 9007199254740992"
    by (rule dbl_nearI[where k = "- 1" and m = "7656119366529843"]) (simp_all add: power_int_minus)
  show "(0::real) < dbl (15 / 100)" "dbl (15 / 100) \<le> 1 / 2" "1 / 2 \<le> dbl (85 / 100)"
    unfolding a b by simp_all
qed

lemma raw_score_flat:
  assumes "30 \<le> i" and "i < n" and "\<bar>m\<bar> < 2 ^ 48"
  shows "raw_score (replicate n (of_int m)) (bt_calcRSI (replicate n (of_int m)) 14)
           (calcMACDSeries (replicate n (of_int m)))
           (calcBollingerSeries (replicate n (of_int m)) 20) i = - 30"
proof -
  have rsi: "(replicate 15 None @ replicate (n - 14) (Some (100::real))) ! i = Some 100"
    using assms by (simp add: nth_append)
  have bb: "calcBollingerSeries (replicate n (real_of_int m)) 20 ! i =
              Some \<lparr>bb_upper = of_int m, bb_middle = of_int m, bb_lower = of_int m,
                    bb_percentB = 1 / 2\<rparr>"
    using assms by (simp add: calcBollingerSeries_def bollinger_at_flat)
  have n15: "15 \<le> n" using assms by simp
  have sbb: "bt_score_bb (Some \<lparr>bb_upper = of_int m, bb_middle = of_int m, bb_lower = of_int m,
                    bb_percentB = 1 / 2\<rparr>) = 0"
    using bb_thresholds by (simp add: bt_score_bb_def)
  show ?thesis
    using assms(1,2)
    by (simp add: raw_score_def bt_calcRSI_flat[OF n15] rsi calcMACDSeries_flat bb sbb
        bt_score_trend_flat bt_score_rsi_def bt_score_macd_def bt_score_cross_def)
qed

lemma generateSignals_flat:
  assumes "map candle_c cs = replicate (length cs) (of_int m)" and "\<bar>m\<bar> < 2 ^ 48"
  shows "generateSignals cs =
           map (\<lambda>i. \<lparr>sig_idx = i, sig_ts = candle_ts (cs ! i), sig_price = of_int m,
                       sig_score = - 60\<rparr>)
               [30..<length cs]"
proof -
  have "candle_c (cs ! i) = of_int m" if "i < length cs" for i
    using that assms(1) by (metis nth_map nth_replicate)
  then show ?thesis
    unfolding generateSignals_def Let_def assms(1)
    by (intro map_cong) (simp_all add: raw_score_flat[OF _ _ assms(2)])
qed

lemma generateSignals_idx: "map sig_idx (generateSignals cs) = [30..<length cs]"
  by (simp add: generateSignals_def Let_def comp_def)

lemma length_rsi_wilder: "length (rsi_wilder p g l chs) = length chs"
  by (induction chs arbitrary: g l) (simp_all add: Let_def)

text \<open>With at least 15 closes the RSI series exists and has one entry more than the closes.\<close>

lemma bt_calcRSI_defined:
  "15 \<le> length closes \<Longrightarrow> \<exists>rs. bt_calcRSI closes 14 = Some rs \<and> length rs = length closes + 1"
  by (simp add: bt_calcRSI_def changes_def Let_def length_rsi_wilder split: prod.splits)

section \<open>Steps of the simulator\<close>

lemma try_open_trades: "trades (try_open st sg x) = trades st"
  by (simp add: try_open_def)

lemma try_open_keeps: "position st = Some p \<Longrightarrow> try_open st sg x = st"
  by (simp add: try_open_def)

lemma try_open_position:
  "position st = None \<Longrightarrow> position (try_open st sg x) =
     (if sig_score sg \<ge> 20 then
        Some \<lparr>pos_side = Long, pos_entry = x, pos_entryIdx = sig_idx sg + 1, pos_score = sig_score sg\<rparr>
      else if sig_score sg \<le> - 20 then
        Some \<lparr>pos_side = Short, pos_entry = x, pos_entryIdx = sig_idx sg + 1, pos_score = sig_score sg\<rparr>
      else None)"
  by (simp add: try_open_def ENTRY_THRESHOLD_def LOOKFORWARD_def)

lemma close_in_loop_sel:
  "trades (close_in_loop st p pp x r sg) = trades st @
     [\<lparr>tr_side = pos_side p, tr_entry = pos_entry p, tr_exit = x, tr_pnl = pp * 100,
       tr_reason = r, tr_entryIdx = pos_entryIdx p, tr_exitIdx = sig_idx sg + 1,
       tr_holdBars = int (sig_idx sg) - int (pos_entryIdx p)\<rparr>]"
  "position (close_in_loop st p pp x r sg) = None"
  by (simp_all add: close_in_loop_def Let_def LOOKFORWARD_def)

text \<open>The three series and the evaluation of the simulator on them.\<close>

lemmas bt_eval_defs =
  bt_step_def bt_init_def try_open_def close_in_loop_def bt_finish_def pnl_pct_def mk_candle_def
  Let_def ENTRY_THRESHOLD_def EXIT_THRESHOLD_def STOP_LOSS_PCT_def TAKE_PROFIT_PCT_def
  LOOKFORWARD_def

lemma cs_flat_nth: "i < 50 \<Longrightarrow> cs_flat ! i = mk_candle i 100 100"
  by (simp add: cs_flat_def)

lemma cs_stop_nth: "i < 50 \<Longrightarrow> cs_stop ! i = mk_candle i (if i = 48 then 110 else 100) 100"
  by (simp add: cs_stop_def)

lemma cs_dd_nth: "i < 50 \<Longrightarrow> cs_dd ! i = mk_candle i 90 100"
  by (simp add: cs_dd_def)

lemma cs_lengths: "length cs_flat = 50" "length cs_stop = 50" "length cs_dd = 50"
  by (simp_all add: cs_flat_def cs_stop_def cs_dd_def)

lemma cs_stop_signals:
  "generateSignals cs_stop =
     map (\<lambda>i. \<lparr>sig_idx = i, sig_ts = candle_ts (cs_stop ! i), sig_price = 100, sig_score = - 60\<rparr>)
         [30..<50]"
proof -
  have "map candle_c cs_stop = replicate (length cs_stop) (of_int 100)"
    by (simp add: cs_stop_def mk_candle_def comp_def map_replicate_const)
  from generateSignals_flat[OF this] show ?thesis by (simp add: cs_lengths)
qed

lemma cs_dd_signals:
  "generateSignals cs_dd =
     map (\<lambda>i. \<lparr>sig_idx = i, sig_ts = candle_ts (cs_dd ! i), sig_price = 100, sig_score = - 60\<rparr>)
         [30..<50]"
proof -
  have "map candle_c cs_dd = replicate (length cs_dd) (of_int 100)"
    by (simp add: cs_dd_def mk_candle_def comp_def map_replicate_const)
  from generateSignals_flat[OF this] show ?thesis by (simp add: cs_lengths)
qed

lemma cs_stop_run:
  "map trade_span (trades (runBacktest (generateSignals cs_stop) cs_stop))
     = [(StopLoss, 31, 48), (EndOfData, 49, 49)]"
proof -
  have lst: "last cs_stop = mk_candle 49 100 100"
    by (simp add: cs_stop_def last_map)
  show ?thesis
    unfolding cs_stop_signals runBacktest_def LOOKFORWARD_def
    by (simp add: take_map cs_lengths lst cs_stop_nth trade_span_def bt_eval_defs)
qed

lemma cs_dd_run:
  "maxDrawdown (runBacktest (generateSignals cs_dd) cs_dd) = 0"
  "map tr_pnl (trades (runBacktest (generateSignals cs_dd) cs_dd)) = [- (100 / 9)]"
  "map trade_span (trades (runBacktest (generateSignals cs_dd) cs_dd)) = [(EndOfData, 31, 49)]"
proof -
  have lst: "last cs_dd = mk_candle 49 90 100"
    by (simp add: cs_dd_def last_map)
  show "maxDrawdown (runBacktest (generateSignals cs_dd) cs_dd) = 0"
    unfolding cs_dd_signals runBacktest_def LOOKFORWARD_def
    by (simp add: take_map cs_lengths lst cs_dd_nth bt_eval_defs)
  show "map tr_pnl (trades (runBacktest (generateSignals cs_dd) cs_dd)) = [- (100 / 9)]"
    unfolding cs_dd_signals runBacktest_def LOOKFORWARD_def
    by (simp add: take_map cs_lengths lst cs_dd_nth bt_eval_defs)
  show "map trade_span (trades (runBacktest (generateSignals cs_dd) cs_dd)) = [(EndOfData, 31, 49)]"
    unfolding cs_dd_signals runBacktest_def LOOKFORWARD_def
    by (simp add: take_map cs_lengths lst cs_dd_nth trade_span_def bt_eval_defs)
qed

section \<open>The loop invariant of the simulator\<close>

lemma bt_inv_init: "bt_inv n 0 bt_init"
  by (simp add: bt_inv_def bt_init_def)

lemma bt_inv_mono: "bt_inv n b st \<Longrightarrow> b \<le> b' \<Longrightarrow> bt_inv n b' st"
  unfolding bt_inv_def by (meson le_trans)

lemma bt_inv_try_open:
  assumes "bt_inv n b st" and "b \<le> Suc (sig_idx sg)" and "Suc (sig_idx sg) < n"
  shows "bt_inv n (Suc (sig_idx sg)) (try_open st sg x)"
proof (cases "position st")
  case (Some p)
  then show ?thesis using assms bt_inv_mono by (simp add: try_open_keeps)
next
  case None
  have tr: "\<forall>t\<in>set (trades st). tr_exitIdx t \<le> Suc (sig_idx sg)"
    using assms(1,2) unfolding bt_inv_def by (meson le_trans)
  have "bt_inv n (Suc (sig_idx sg)) st" using assms bt_inv_mono by blast
  then show ?thesis
    using None tr assms(3)
    by (simp add: bt_inv_def try_open_trades try_open_position)
qed

lemma bt_inv_close:
  assumes "bt_inv n b st" and "position st = Some p" and "b \<le> sig_idx sg" and "r \<noteq> EndOfData"
  shows "bt_inv n (Suc (sig_idx sg)) (close_in_loop st p pp x r sg)"
proof -
  have old: "bt_inv n (Suc (sig_idx sg)) st" using assms(1,3) bt_inv_mono by (meson le_SucI)
  have p: "pos_entryIdx p \<le> sig_idx sg" "\<forall>t\<in>set (trades st). tr_exitIdx t \<le> pos_entryIdx p"
    using assms(1,2,3) unfolding bt_inv_def by auto
  show ?thesis
    using old p assms(4)
    by (simp add: bt_inv_def close_in_loop_sel sorted_wrt_append)
qed

lemma bt_inv_step:
  assumes "bt_inv (length candles) b st" and "b \<le> sig_idx sg"
  shows "bt_inv (length candles) (Suc (sig_idx sg)) (bt_step candles st sg)"
proof (cases "sig_idx sg + LOOKFORWARD < length candles")
  case False
  then show ?thesis using assms bt_inv_mono by (simp add: bt_step_def le_SucI)
next
  case True
  then have lt: "Suc (sig_idx sg) < length candles" by (simp add: LOOKFORWARD_def)
  have le: "b \<le> Suc (sig_idx sg)" using assms(2) by simp
  show ?thesis
  proof (cases "position st")
    case None
    then show ?thesis using True bt_inv_try_open[OF assms(1) le lt] by (simp add: bt_step_def)
  next
    case (Some p)
    note cl = bt_inv_close[OF assms(1) Some assms(2)]
    have le': "Suc (sig_idx sg) \<le> Suc (sig_idx sg)" by simp
    show ?thesis
      using True Some bt_inv_try_open[OF assms(1) le lt] bt_inv_try_open[OF cl le' lt] cl
      by (simp add: bt_step_def Let_def)
  qed
qed

lemma bt_inv_loop:
  assumes "bt_inv (length candles) b st" and "sorted_wrt (<) (map sig_idx sigs)"
    and "\<forall>s\<in>set sigs. b \<le> sig_idx s"
  shows "\<exists>b'. bt_inv (length candles) b' (bt_loop candles st sigs)"
  using assms
proof (induction sigs arbitrary: b st)
  case Nil
  then show ?case by auto
next
  case (Cons sg rest)
  have "bt_inv (length candles) (Suc (sig_idx sg)) (bt_step candles st sg)"
    using Cons.prems(1,3) by (intro bt_inv_step) auto
  moreover have "\<forall>s\<in>set rest. Suc (sig_idx sg) \<le> sig_idx s"
    using Cons.prems(2) by auto
  moreover have "sorted_wrt (<) (map sig_idx rest)" using Cons.prems(2) by simp
  ultimately show ?case using Cons.IH by simp
qed

lemma bt_inv_finish:
  assumes "bt_inv (length candles) b st"
  shows "ledger_ok (trades (bt_finish candles st))"
proof (cases "position st")
  case None
  then show ?thesis using assms by (auto simp: bt_finish_def bt_inv_def ledger_ok_def)
next
  case (Some p)
  then have "pos_entryIdx p \<le> length candles - 1"
    and "\<forall>t\<in>set (trades st). tr_exitIdx t \<le> pos_entryIdx p"
    using assms unfolding bt_inv_def by auto
  then show ?thesis
    using Some assms by (auto simp: bt_finish_def bt_inv_def ledger_ok_def Let_def sorted_wrt_append)
qed

text \<open>For any signals whose bar indices increase strictly the ledger is well formed.\<close>

lemma runBacktest_ledger:
  assumes "sorted_wrt (<) (map sig_idx signals)"
  shows "ledger_ok (trades (runBacktest signals candles))"
proof -
  have "sorted_wrt (<) (map sig_idx (take (length signals - LOOKFORWARD) signals))"
    using assms by (simp add: take_map[symmetric])
  then obtain b where "bt_inv (length candles) b
      (bt_loop candles bt_init (take (length signals - LOOKFORWARD) signals))"
    using bt_inv_loop[OF bt_inv_init] by blast
  then show ?thesis unfolding runBacktest_def by (rule bt_inv_finish)
qed

section \<open>The drawdown that the simulator reports\<close>

text \<open>
  The loop keeps \<^verbatim>\<open>equity\<close>, \<^verbatim>\<open>peak\<close> and \<^verbatim>\<open>maxDrawdown\<close> equal to the cumulative equity,
  its peak and the drawdown of the trades it has closed so far.
\<close>

lemma equity_after_append:
  "k \<le> length pn \<Longrightarrow> equity_after (pn @ [x]) k = equity_after pn k"
  by (simp add: equity_after_def)

lemma equity_after_full: "equity_after pn (length pn) = sum_list pn"
  by (simp add: equity_after_def)

lemma peak_upto_append:
  "k \<le> length pn \<Longrightarrow> peak_upto (pn @ [x]) k = peak_upto pn k"
proof -
  assume "k \<le> length pn"
  then have "equity_after (pn @ [x]) ` {0..k} = equity_after pn ` {0..k}"
    by (intro image_cong) (simp_all add: equity_after_append)
  then show ?thesis by (simp add: peak_upto_def)
qed

lemma peak_upto_Suc:
  "peak_upto pn (Suc k) = max (equity_after pn (Suc k)) (peak_upto pn k)"
proof -
  have "{0..Suc k} = insert (Suc k) {0..k}" by auto
  then show ?thesis by (simp add: peak_upto_def)
qed

lemma spec_maxDrawdown_append:
  "spec_maxDrawdown (pn @ [x]) =
     max (max (sum_list pn + x) (peak_upto pn (length pn)) - (sum_list pn + x))
         (spec_maxDrawdown pn)"
proof -
  let ?n = "length pn"
  let ?f = "\<lambda>qs k. peak_upto qs k - equity_after qs k"
  have set: "{0..length (pn @ [x])} = insert (Suc ?n) {0..?n}" by auto
  have old: "?f (pn @ [x]) ` {0..?n} = ?f pn ` {0..?n}"
    by (intro image_cong) (simp_all add: equity_after_append peak_upto_append)
  have eq: "equity_after (pn @ [x]) (Suc ?n) = sum_list pn + x"
    using equity_after_full[of "pn @ [x]"] by simp
  have new: "?f (pn @ [x]) (Suc ?n) =
      max (sum_list pn + x) (peak_upto pn ?n) - (sum_list pn + x)"
    by (simp add: peak_upto_Suc eq peak_upto_append)
  have "spec_maxDrawdown (pn @ [x]) = Max (insert (?f (pn @ [x]) (Suc ?n)) (?f pn ` {0..?n}))"
    unfolding spec_maxDrawdown_def set image_insert old ..
  also have "\<dots> = max (?f (pn @ [x]) (Suc ?n)) (Max (?f pn ` {0..?n}))"
    by (rule Max_insert) simp_all
  finally show ?thesis by (simp add: new spec_maxDrawdown_def)
qed

lemma dd_inv_init: "dd_inv bt_init"
  by (simp add: dd_inv_def bt_init_def spec_maxDrawdown_def peak_upto_def equity_after_def)

lemma dd_inv_try_open: "dd_inv st \<Longrightarrow> dd_inv (try_open st sg x)"
  by (simp add: dd_inv_def try_open_def)

lemma dd_inv_close:
  assumes "dd_inv st" and "r \<noteq> EndOfData"
  shows "dd_inv (close_in_loop st p pp x r sg)"
proof -
  let ?pn = "map tr_pnl (trades st)"
  from assms(1) have e: "equity st = sum_list ?pn" and pk: "peak st = peak_upto ?pn (length ?pn)"
    and md: "maxDrawdown st = spec_maxDrawdown ?pn"
    and rs: "\<forall>t\<in>set (trades st). tr_reason t \<noteq> EndOfData"
    by (simp_all add: dd_inv_def Let_def)
  have "peak_upto (?pn @ [pp * 100]) (Suc (length ?pn)) = max (sum_list ?pn + pp * 100) (peak st)"
    using equity_after_full[of "?pn @ [pp * 100]"]
    by (simp add: peak_upto_Suc peak_upto_append pk)
  then show ?thesis
    using rs assms(2)
    by (simp add: dd_inv_def close_in_loop_def Let_def spec_maxDrawdown_append e pk md max_def)
qed

lemma dd_inv_step: "dd_inv st \<Longrightarrow> dd_inv (bt_step candles st sg)"
  by (simp add: bt_step_def Let_def dd_inv_try_open dd_inv_close split: option.splits)

lemma dd_inv_loop: "dd_inv st \<Longrightarrow> dd_inv (bt_loop candles st sigs)"
  by (induction sigs arbitrary: st) (simp_all add: dd_inv_step)

text \<open>
  So the reported maximum drawdown is the drawdown of the ledger without its forced-close
  trade, for any signals and candles.
\<close>

lemma reported_drawdown:
  "maxDrawdown (runBacktest signals candles) =
     spec_maxDrawdown (map tr_pnl
       (filter (\<lambda>t. tr_reason t \<noteq> EndOfData) (trades (runBacktest signals candles))))"
proof -
  let ?st = "bt_loop candles bt_init (take (length signals - LOOKFORWARD) signals)"
  have inv: "dd_inv ?st" by (rule dd_inv_loop[OF dd_inv_init])
  then have f: "filter (\<lambda>t. tr_reason t \<noteq> EndOfData) (trades ?st) = trades ?st"
    by (simp add: dd_inv_def)
  have "maxDrawdown ?st = spec_maxDrawdown (map tr_pnl (trades ?st))"
    using inv by (simp add: dd_inv_def Let_def)
  then show ?thesis
    unfolding runBacktest_def using f
    by (simp add: bt_finish_def Let_def split: option.splits)
qed

section \<open>The live scorer\<close>

text \<open>Every factor score is an integer.\<close>

lemma score_funding_int: "score_funding x \<in> \<int>"
  by (simp add: score_funding_def)

lemma score_fundingTrend_int: "score_fundingTrend h \<in> \<int>"
  by (simp add: score_fundingTrend_def Let_def)

lemma score_longShort_int: "score_longShort x p \<in> \<int>"
  by (simp add: score_longShort_def Let_def split: option.splits)

lemma score_fearGreed_int: "score_fearGreed x \<in> \<int>"
  by (simp add: score_fearGreed_def)

lemma score_rsi_int: "score_rsi x \<in> \<int>"
  by (simp add: score_rsi_def)

lemma score_macd_int: "score_macd m \<in> \<int>"
  by (simp add: score_macd_def)

lemma score_bollinger_int: "score_bollinger pb \<in> \<int>"
  by (simp add: score_bollinger_def split: quotient.splits)

lemma score_liquidation_int: "score_liquidation x \<in> \<int>"
  by (simp add: score_liquidation_def)

lemma scoreSignals_int:
  assumes "scoreSignals d k = Some s"
  shows "s \<in> \<int>"
proof (cases k)
  case Funding
  then show ?thesis using assms score_funding_int by (auto simp: scoreSignals_def)
next
  case FundingTrend
  then show ?thesis using assms score_fundingTrend_int
    by (auto simp: scoreSignals_def split: option.splits if_splits)
next
  case LongShort
  then show ?thesis using assms score_longShort_int
    by (auto simp: scoreSignals_def split: option.splits if_splits)
next
  case FearGreed
  then show ?thesis using assms score_fearGreed_int by (auto simp: scoreSignals_def)
next
  case Rsi
  then show ?thesis using assms score_rsi_int
    by (auto simp: scoreSignals_def split: option.splits if_splits)
next
  case Macd
  then show ?thesis using assms score_macd_int
    by (auto simp: scoreSignals_def split: option.splits if_splits)
next
  case Bollinger
  then show ?thesis using assms score_bollinger_int
    by (auto simp: scoreSignals_def split: option.splits if_splits)
next
  case Liquidation
  then show ?thesis using assms score_liquidation_int
    by (auto simp: scoreSignals_def split: option.splits if_splits)
qed

lemma js_round_int: "x \<in> \<int> \<Longrightarrow> js_round x = x"
proof -
  assume "x \<in> \<int>"
  then obtain z :: int where x: "x = of_int z" by (auto elim: Ints_cases)
  have "\<lfloor>(of_int z :: real) + 1 / 2\<rfloor> = z" by (rule floor_unique) simp_all
  then show ?thesis by (simp add: js_round_def x)
qed

lemma js_round_near: "\<bar>js_round y - y\<bar> \<le> 1 / 2"
proof -
  have "of_int \<lfloor>y + 1 / 2\<rfloor> \<le> y + 1 / 2" and "y + 1 / 2 < of_int \<lfloor>y + 1 / 2\<rfloor> + 1"
    by simp_all
  then show ?thesis unfolding js_round_def by linarith
qed

text \<open>The loop of \<^verbatim>\<open>aggregate\<close> as two sums over the entries of the weight table.\<close>

lemma agg_loop_sum:
  "agg_loop scores a b ws =
     (a + (\<Sum>(k, w)\<leftarrow>ws. if k \<in> dom scores then the (scores k) * w else 0),
      b + (\<Sum>(k, w)\<leftarrow>ws. if k \<in> dom scores then w else 0))"
  by (induction ws arbitrary: a b) (auto split: option.splits)

lemma factor_UNIV:
  "(UNIV :: factor set) =
     {Funding, FundingTrend, LongShort, FearGreed, Rsi, Macd, Bollinger, Liquidation}"
  using factor.exhaust by auto

lemma finite_factors: "finite (A :: factor set)"
proof -
  have "finite (UNIV :: factor set)" by (simp add: factor_UNIV)
  then show ?thesis by (rule rev_finite_subset) simp
qed

lemma sum_dom_factor:
  "(\<Sum>k\<in>dom scores. f k) = (\<Sum>k\<in>(UNIV :: factor set). if k \<in> dom scores then f k else 0)"
proof -
  from sum.inter_restrict[where A = UNIV and B = "dom scores" and g = f, OF finite_factors]
  show ?thesis by simp
qed

lemma agg_loop_weights:
  "agg_loop scores 0 0 weights =
     (\<Sum>k\<in>dom scores. the (scores k) * weight_of k, \<Sum>k\<in>dom scores. weight_of k)"
  unfolding agg_loop_sum sum_dom_factor[where scores = scores]
  by (simp add: weights_def factor_UNIV weight_of_def)

lemma weight_of_pos: "0 < weight_of k"
  by (cases k) (simp_all add: weight_of_def)

lemma total_weight_zero_iff: "(\<Sum>k\<in>dom scores. weight_of k) = 0 \<longleftrightarrow> dom scores = {}"
proof
  assume z: "(\<Sum>k\<in>dom scores. weight_of k) = 0"
  show "dom scores = {}"
  proof (rule ccontr)
    assume "dom scores \<noteq> {}"
    moreover have "finite (dom scores)" by (rule finite_factors)
    ultimately have "0 < (\<Sum>k\<in>dom scores. weight_of k)"
      by (intro sum_pos) (simp_all add: weight_of_pos)
    with z show False by simp
  qed
qed simp

lemma aggregate_eq:
  "aggregate scores =
     (if dom scores = {} then 0 else js_round (weighted_mean scores * 100) / 100)"
  by (simp add: aggregate_def agg_loop_weights total_weight_zero_iff weighted_mean_def)

text \<open>With a single factor present, of integer score, the aggregate is that score.\<close>

lemma aggregate_single:
  assumes "scores k = Some s" and "\<forall>j. j \<noteq> k \<longrightarrow> scores j = None" and "s \<in> \<int>"
  shows "aggregate scores = s"
proof -
  have d: "dom scores = {k}" using assms(1,2) by (auto simp: dom_def)
  have "weighted_mean scores = s"
    using weight_of_pos[of k] by (simp add: weighted_mean_def d assms(1))
  moreover have "s * 100 \<in> \<int>" using assms(3) by simp
  ultimately show ?thesis by (simp add: aggregate_eq d js_round_int)
qed

text \<open>The MACD line of the live \<^verbatim>\<open>calcMACD\<close> has one value per close from the 26th on.\<close>

lemma length_macd_loop: "length (macd_loop a b i xs) = (i + length xs) - max i 25"
  by (induction xs arbitrary: a b i) (auto simp: Let_def)

lemma length_macd_line: "length (macd_line closes) = length closes - 25"
  by (cases closes) (simp_all add: macd_line_def length_macd_loop)

lemma macd_loop_flat_prefix:
  "macd_loop c c i (replicate m c @ ys) =
     replicate ((i + m) - max i 25) 0 @ macd_loop c c (i + m) ys"
proof (induction m arbitrary: i)
  case 0
  then show ?case by simp
next
  case (Suc m)
  have step: "c * (2 / 13) + c * (1 - 2 / 13) = c" "c * (2 / 27) + c * (1 - 2 / 27) = c"
    by (simp_all add: algebra_simps)
  show ?case
  proof (cases "25 \<le> i")
    case True
    then have "Suc (i + m) - max i 25 = Suc (Suc (i + m) - max (Suc i) 25)" by simp
    then show ?thesis using True Suc.IH[of "Suc i"] by (simp add: step)
  next
    case False
    then have "max i 25 = max (Suc i) 25" by simp
    then show ?thesis using False Suc.IH[of "Suc i"] by (simp add: step)
  qed
qed

lemma cs34_closes: "map candle_c cs34 = 100 # replicate 32 100 @ [101]"
proof -
  have "map candle_c cs34 = replicate 33 100 @ [101]"
    by (simp add: cs34_def mk_candle_def comp_def map_replicate_const)
  moreover have "replicate 33 (100::real) = 100 # replicate 32 100"
    by (simp add: eval_nat_numeral)
  ultimately show ?thesis by simp
qed

lemma cs34_macd_line: "macd_line (map candle_c cs34) = replicate 8 0 @ [28 / 351]"
  by (simp add: cs34_closes macd_line_def macd_loop_flat_prefix)

lemma cs34_macd:
  "mp_macd (calcMACD cs34) = 28 / 351"
  "mp_signal (calcMACD cs34) = 28 / 1755"
  "mp_hist (calcMACD cs34) = 112 / 1755"
proof -
  have len: "length cs34 = 34" by (simp add: cs34_def)
  have r: "replicate 8 (0::real) = [0, 0, 0, 0, 0, 0, 0, 0]" by (simp add: eval_nat_numeral)
  show "mp_macd (calcMACD cs34) = 28 / 351" "mp_signal (calcMACD cs34) = 28 / 1755"
    "mp_hist (calcMACD cs34) = 112 / 1755"
    by (simp_all add: calcMACD_def len cs34_macd_line r)
qed

section \<open>Claims about the backtest simulator\<close>

text \<open>
  C1, as stated, fails.  On the flat series, with a short position entered at bar 31, a bullish
  signal at bar 31 closes the position at bar 32 with reason signal reversal, and the same
  loop iteration opens a long position: the ledger of the run shows bar 32 as the exit of the
  first trade and the entry of the second.
\<close>

theorem reversal_close_reopens_same_bar:
  "position st_short \<noteq> None
   \<and> closed_by st_short (bt_step cs_flat st_short sg_long) = Some SignalReversal
   \<and> opened st_short (bt_step cs_flat st_short sg_long)
   \<and> map trade_span (trades (runBacktest [sg_short, sg_long, sg_late] cs_flat))
       = [(SignalReversal, 31, 32), (EndOfData, 32, 49)]"
  unfolding st_short_def sg_short_def sg_long_def sg_late_def runBacktest_def
  by (simp add: closed_by_def opened_def trade_span_def cs_lengths cs_flat_nth cs_flat_def last_map
      bt_eval_defs)

text \<open>
  C1, amended.  In every loop iteration, from every state: a position is opened only when the
  simulator was flat at the start of the iteration (and then nothing is closed in it), or right
  after a signal-reversal close in the same iteration, and then on the opposite side and at the
  bar of that exit; an iteration that closes by stop-loss or take-profit leaves the simulator
  flat; and a position that is not closed is carried over unchanged.
\<close>

theorem no_pyramiding:
  "(opened st (bt_step candles st sg) \<longrightarrow>
        (position st = None \<and> closed_by st (bt_step candles st sg) = None)
      \<or> (closed_by st (bt_step candles st sg) = Some SignalReversal
         \<and> (\<exists>p q. position st = Some p \<and> position (bt_step candles st sg) = Some q
                  \<and> pos_side q \<noteq> pos_side p
                  \<and> pos_entryIdx q = tr_exitIdx (last (trades (bt_step candles st sg))))))
   \<and> (closed_by st (bt_step candles st sg) = Some StopLoss
      \<or> closed_by st (bt_step candles st sg) = Some TakeProfit
        \<longrightarrow> position (bt_step candles st sg) = None)
   \<and> (position st \<noteq> None \<and> closed_by st (bt_step candles st sg) = None
        \<longrightarrow> position (bt_step candles st sg) = position st)"
proof (cases "position st")
  case None
  then show ?thesis
    by (simp add: bt_step_def closed_by_def opened_def try_open_trades Let_def)
next
  case (Some p)
  then show ?thesis
    by (simp add: bt_step_def closed_by_def opened_def try_open_trades try_open_keeps
        close_in_loop_sel try_open_position EXIT_THRESHOLD_def Let_def LOOKFORWARD_def)
qed

theorem no_pyramiding_witness:
  "opened st_short (bt_step cs_flat st_short sg_long)
   \<and> closed_by st_short (bt_step cs_flat st_short sg_long) = Some SignalReversal
   \<and> closed_by st_short' (bt_step cs_stop st_short' sg_late) = Some StopLoss
   \<and> position (bt_step cs_stop st_short' sg_late) = None
   \<and> position st_short \<noteq> None
   \<and> closed_by st_short (bt_step cs_flat st_short sg_short) = None
   \<and> position (bt_step cs_flat st_short sg_short) = position st_short"
proof -
  have pos: "position st_short \<noteq> None"
    unfolding st_short_def sg_short_def by (simp add: cs_lengths cs_flat_nth bt_eval_defs)
  have op: "opened st_short (bt_step cs_flat st_short sg_long)"
    unfolding st_short_def sg_short_def sg_long_def
    by (simp add: opened_def cs_lengths cs_flat_nth bt_eval_defs)
  have sl: "closed_by st_short' (bt_step cs_stop st_short' sg_late) = Some StopLoss"
    unfolding st_short'_def sg_short_def sg_late_def
    by (simp add: closed_by_def cs_lengths cs_stop_nth bt_eval_defs)
  have keep: "closed_by st_short (bt_step cs_flat st_short sg_short) = None"
    unfolding st_short_def sg_short_def
    by (simp add: closed_by_def cs_lengths cs_flat_nth bt_eval_defs)
  from no_pyramiding[of st_short cs_flat sg_long] op pos
  have "closed_by st_short (bt_step cs_flat st_short sg_long) = Some SignalReversal" by blast
  moreover from no_pyramiding[of st_short' cs_stop sg_late] sl
  have "position (bt_step cs_stop st_short' sg_late) = None" by blast
  moreover from no_pyramiding[of st_short cs_flat sg_short] pos keep
  have "position (bt_step cs_flat st_short sg_short) = position st_short" by blast
  ultimately show ?thesis using pos op sl keep by blast
qed

text \<open>
  C2, as stated, fails.  Fifty bars closing at 100, bar 48 opening at 110: the short entered at
  bar 31 is stopped out at bar 48, the last loop iteration enters a new short at bar 49, the
  last bar, and the forced close records it with exit index 49, equal to its entry index.
\<close>

theorem forced_close_on_entry_bar:
  "length cs_stop = 50
   \<and> map trade_span (trades (runBacktest (generateSignals cs_stop) cs_stop))
       = [(StopLoss, 31, 48), (EndOfData, 49, 49)]"
  by (simp add: cs_lengths cs_stop_run)

text \<open>
  C2, amended.  For every candle series, in the ledger of the simulator run on the generated
  signals: every trade closed inside the loop (stop-loss, take-profit, signal reversal) has an
  exit index strictly greater than its entry index; the forced close at the end of the data has
  an exit index greater than or equal to its entry index; and no trade enters before the trade
  recorded before it has exited, so at most one position is open at any bar.
\<close>

theorem backtest_ledger_ok:
  "ledger_ok (trades (runBacktest (generateSignals candles) candles))"
  by (rule runBacktest_ledger) (simp add: generateSignals_idx)

theorem backtest_ledger_ok_witness:
  "hd (trades (runBacktest (generateSignals cs_stop) cs_stop))
     \<in> set (trades (runBacktest (generateSignals cs_stop) cs_stop))
   \<and> tr_reason (hd (trades (runBacktest (generateSignals cs_stop) cs_stop))) \<noteq> EndOfData
   \<and> tr_entryIdx (hd (trades (runBacktest (generateSignals cs_stop) cs_stop)))
       < tr_exitIdx (hd (trades (runBacktest (generateSignals cs_stop) cs_stop)))"
proof -
  let ?ts = "trades (runBacktest (generateSignals cs_stop) cs_stop)"
  from cs_stop_run obtain t u where ts: "?ts = [t, u]" and t: "trade_span t = (StopLoss, 31, 48)"
    by (auto simp: map_eq_Cons_conv)
  have mem: "hd ?ts \<in> set ?ts" and r: "tr_reason (hd ?ts) \<noteq> EndOfData"
    using ts t by (simp_all add: trade_span_def)
  from backtest_ledger_ok[of cs_stop] mem r
  have "tr_entryIdx (hd ?ts) < tr_exitIdx (hd ?ts)"
    unfolding ledger_ok_def by blast
  with mem r show ?thesis by blast
qed

text \<open>
  C3: the code at the failing input.  Fifty bars opening at 90 and closing at 100: the short
  entered at bar 31 at 90 is never closed in the loop and is force-closed at the last close,
  100, with a loss of 100/9 percent.  The ledger holds this one trade, the largest
  peak-to-current drop of its cumulative equity is 100/9, and the reported maximum drawdown
  is 0.
\<close>

theorem drawdown_misses_forced_close:
  "map trade_span (trades (runBacktest (generateSignals cs_dd) cs_dd)) = [(EndOfData, 31, 49)]
   \<and> map tr_pnl (trades (runBacktest (generateSignals cs_dd) cs_dd)) = [- (100 / 9)]
   \<and> spec_maxDrawdown (map tr_pnl (trades (runBacktest (generateSignals cs_dd) cs_dd))) = 100 / 9
   \<and> maxDrawdown (runBacktest (generateSignals cs_dd) cs_dd) = 0"
proof -
  have "{0..Suc 0} = {0, Suc 0}" by auto
  then have "spec_maxDrawdown [- (100 / 9)] = 100 / 9"
    by (simp add: spec_maxDrawdown_def peak_upto_def equity_after_def)
  then show ?thesis by (simp add: cs_dd_run)
qed

text \<open>
  C9.  With fewer than 50 candles the backtest reports insufficient data; that outcome carries
  neither a ledger nor statistics, and the simulation is not run.
\<close>

theorem backtest_refuses_short_series:
  "length candles < 50 \<Longrightarrow> backtest_main candles = InsufficientData"
  by (simp add: backtest_main_def)

theorem backtest_refuses_short_series_witness:
  "length (take 49 cs_flat) < 50 \<and> backtest_main (take 49 cs_flat) = InsufficientData"
proof -
  have len: "length (take 49 cs_flat) < 50" by (simp add: cs_lengths)
  from backtest_refuses_short_series[OF len] len show ?thesis by blast
qed

section \<open>The guard of the Bollinger series\<close>

lemma calcBollingerSeries_nth:
  "i < length closes \<Longrightarrow> calcBollingerSeries closes p ! i = bollinger_at closes p i"
  by (simp add: calcBollingerSeries_def)

text \<open>The entry of the series in terms of the computed mean and deviation of the window.\<close>

lemma bollinger_at_window:
  assumes "p - 1 \<le> i"
  shows "bollinger_at closes p i =
     Some \<lparr>bb_upper = fadd (window_sma closes p i) (fmul 2 (window_std closes p i)),
           bb_middle = window_sma closes p i,
           bb_lower = fsub (window_sma closes p i) (fmul 2 (window_std closes p i)),
           bb_percentB =
             (if window_std closes p i > 0
              then fdiv (fsub (dbl (closes ! i))
                              (fsub (window_sma closes p i) (fmul 2 (window_std closes p i))))
                        (fmul 4 (window_std closes p i))
              else 1 / 2)\<rparr>"
  using assms by (simp add: bollinger_at_def window_sma_def window_std_def Let_def)

text \<open>The rounded sum of rounded squares is not negative, so the square root is taken of a
  number that is not negative.\<close>

lemma foldl_dev_nonneg:
  "0 \<le> s \<Longrightarrow> 0 \<le> foldl (\<lambda>s c. fadd s (fmul (fsub c v) (fsub c v))) s xs"
proof (induction xs arbitrary: s)
  case Nil
  then show ?case by simp
next
  case (Cons x xs)
  have "0 \<le> fmul (fsub x v) (fsub x v)" unfolding fmul_def by (rule dbl_nonneg) simp
  with Cons.prems have "0 \<le> fadd s (fmul (fsub x v) (fsub x v))"
    unfolding fadd_def by (intro dbl_nonneg) simp
  from Cons.IH[OF this] show ?case by simp
qed

lemma window_std_nonneg: "0 \<le> window_std closes p i"
proof -
  have "0 \<le> fdiv (foldl (\<lambda>s c. fadd s (fmul (fsub c v) (fsub c v))) 0 xs) (real p)" for v xs
    unfolding fdiv_def using foldl_dev_nonneg[of 0 v xs] by (intro dbl_nonneg) simp
  then show ?thesis
    unfolding window_std_def Let_def fsqrt_def by (intro dbl_nonneg) simp
qed

text \<open>A positive double stays positive when multiplied by 4: the divisor of the guarded
  quotient is not zero.\<close>

lemma fmul_4_pos:
  assumes "0 < dbl x"
  shows "0 < fmul 4 (dbl x)"
proof -
  have "2 powi (- 1074) \<le> dbl x" by (rule dbl_pos_ge[OF assms])
  then have "2 powi (- 1074) \<le> 4 * dbl x" using assms by linarith
  then show ?thesis unfolding fmul_def by (rule dbl_pos)
qed

lemma window_divisor_pos:
  assumes "0 < window_std closes p i"
  shows "0 < fmul 4 (window_std closes p i)"
  using assms unfolding window_std_def Let_def fsqrt_def by (rule fmul_4_pos)

lemma window_const:
  assumes "0 < period" and "int period * \<bar>m\<bar> < 2 ^ 53"
    and "take period (drop (i + 1 - period) closes) = replicate period (of_int m)"
  shows "window_sma closes period i = of_int m" and "window_std closes period i = 0"
proof -
  have "0 \<le> \<bar>m\<bar> * (int period - 1)" using assms(1) by simp
  then have "\<bar>m\<bar> \<le> int period * \<bar>m\<bar>" by (simp add: algebra_simps)
  then have m: "\<bar>m\<bar> < 2 ^ 53" using assms(2) by linarith
  have d: "dbl (of_int m) = of_int m" by (rule dbl_of_int[OF m])
  have sl: "map dbl (replicate period (real_of_int m)) = replicate period (of_int m)"
    by (simp add: d)
  have "foldl fadd (of_int 0) (replicate period (real_of_int m)) = of_int (0 + int period * m)"
    by (rule foldl_fadd_int) (use assms(2) in simp)
  then have sum: "foldl fadd 0 (replicate period (real_of_int m)) = real period * of_int m"
    by simp
  have sma: "fdiv (real period * of_int m) (real period) = of_int m"
    using assms(1) by (simp add: fdiv_def d)
  show "window_sma closes period i = of_int m"
    unfolding window_sma_def assms(3) sl sum sma ..
  show "window_std closes period i = 0"
    unfolding window_std_def Let_def assms(3) sl sum sma foldl_dev_const
    by (simp add: fdiv_def fsqrt_def)
qed

text \<open>Twenty closes of \<open>0.1\<close>: the roundings of the running sum, of the mean and of what follows.\<close>

lemma tenth_1: "dbl (1 / 10) = 3602879701896397 / 36028797018963968"
  by (rule dbl_nearI[where k = "- 4" and m = "7205759403792794"]) (simp_all add: power_int_minus)

lemma tenth_2: "dbl (3602879701896397 / 36028797018963968) = 3602879701896397 / 36028797018963968"
  by (rule dbl_nearI[where k = "- 4" and m = "7205759403792794"]) (simp_all add: power_int_minus)

lemma tenth_3: "dbl (3602879701896397 / 18014398509481984) = 3602879701896397 / 18014398509481984"
  by (rule dbl_nearI[where k = "- 3" and m = "7205759403792794"]) (simp_all add: power_int_minus)

lemma tenth_4: "dbl (10808639105689191 / 36028797018963968) = 1351079888211149 / 4503599627370496"
  by (rule dbl_tie[where k = "- 2" and m = "5404319552844596"]) (simp_all add: power_int_minus)

lemma tenth_5: "dbl (14411518807585589 / 36028797018963968) = 3602879701896397 / 9007199254740992"
  by (rule dbl_tie[where k = "- 2" and m = "7205759403792794"]) (simp_all add: power_int_minus)

lemma tenth_6: "dbl (18014398509481985 / 36028797018963968) = 1 / 2"
  by (rule dbl_nearI[where k = "- 1" and m = "4503599627370496"]) (simp_all add: power_int_minus)

lemma tenth_7: "dbl (21617278211378381 / 36028797018963968) = 5404319552844595 / 9007199254740992"
  by (rule dbl_nearI[where k = "- 1" and m = "5404319552844595"]) (simp_all add: power_int_minus)

lemma tenth_8: "dbl (25220157913274777 / 36028797018963968) = 3152519739159347 / 4503599627370496"
  by (rule dbl_nearI[where k = "- 1" and m = "6305039478318694"]) (simp_all add: power_int_minus)

lemma tenth_9: "dbl (28823037615171173 / 36028797018963968) = 7205759403792793 / 9007199254740992"
  by (rule dbl_nearI[where k = "- 1" and m = "7205759403792793"]) (simp_all add: power_int_minus)

lemma tenth_10: "dbl (32425917317067569 / 36028797018963968) = 2026619832316723 / 2251799813685248"
  by (rule dbl_nearI[where k = "- 1" and m = "8106479329266892"]) (simp_all add: power_int_minus)

lemma tenth_11: "dbl (36028797018963965 / 36028797018963968) = 9007199254740991 / 9007199254740992"
  by (rule dbl_nearI[where k = "- 1" and m = "9007199254740991"]) (simp_all add: power_int_minus)

lemma tenth_12: "dbl (39631676720860361 / 36028797018963968) = 4953959590107545 / 4503599627370496"
  by (rule dbl_nearI[where k = "0" and m = "4953959590107545"]) (simp_all add: power_int_minus)

lemma tenth_13: "dbl (43234556422756757 / 36028797018963968) = 5404319552844595 / 4503599627370496"
  by (rule dbl_nearI[where k = "0" and m = "5404319552844595"]) (simp_all add: power_int_minus)

lemma tenth_14: "dbl (46837436124653157 / 36028797018963968) = 5854679515581645 / 4503599627370496"
  by (rule dbl_nearI[where k = "0" and m = "5854679515581645"]) (simp_all add: power_int_minus)

lemma tenth_15: "dbl (50440315826549557 / 36028797018963968) = 6305039478318695 / 4503599627370496"
  by (rule dbl_nearI[where k = "0" and m = "6305039478318695"]) (simp_all add: power_int_minus)

lemma tenth_16: "dbl (54043195528445957 / 36028797018963968) = 6755399441055745 / 4503599627370496"
  by (rule dbl_nearI[where k = "0" and m = "6755399441055745"]) (simp_all add: power_int_minus)

lemma tenth_17: "dbl (57646075230342357 / 36028797018963968) = 7205759403792795 / 4503599627370496"
  by (rule dbl_nearI[where k = "0" and m = "7205759403792795"]) (simp_all add: power_int_minus)

lemma tenth_18: "dbl (61248954932238757 / 36028797018963968) = 7656119366529845 / 4503599627370496"
  by (rule dbl_nearI[where k = "0" and m = "7656119366529845"]) (simp_all add: power_int_minus)

lemma tenth_19: "dbl (64851834634135157 / 36028797018963968) = 8106479329266895 / 4503599627370496"
  by (rule dbl_nearI[where k = "0" and m = "8106479329266895"]) (simp_all add: power_int_minus)

lemma tenth_20: "dbl (68454714336031557 / 36028797018963968) = 8556839292003945 / 4503599627370496"
  by (rule dbl_nearI[where k = "0" and m = "8556839292003945"]) (simp_all add: power_int_minus)

lemma tenth_21: "dbl (72057594037927957 / 36028797018963968) = 4503599627370497 / 2251799813685248"
  by (rule dbl_nearI[where k = "1" and m = "4503599627370497"]) (simp_all add: power_int_minus)

lemma tenth_22: "dbl (4503599627370497 / 45035996273704960) = 7205759403792795 / 72057594037927936"
  by (rule dbl_nearI[where k = "- 4" and m = "7205759403792795"]) (simp_all add: power_int_minus)

lemma tenth_23: "dbl (- (1 / 72057594037927936)) = - (1 / 72057594037927936)"
  by (rule dbl_nearI[where k = "- 56" and m = "- 4503599627370496"]) (simp_all add: power_int_minus)

lemma tenth_24: "dbl (1 / 5192296858534827628530496329220096) = 1 / 5192296858534827628530496329220096"
  by (rule dbl_nearI[where k = "- 112" and m = "4503599627370496"]) (simp_all add: power_int_minus)

lemma tenth_25: "dbl (1 / 2596148429267413814265248164610048) = 1 / 2596148429267413814265248164610048"
  by (rule dbl_nearI[where k = "- 111" and m = "4503599627370496"]) (simp_all add: power_int_minus)

lemma tenth_26: "dbl (3 / 5192296858534827628530496329220096) = 3 / 5192296858534827628530496329220096"
  by (rule dbl_nearI[where k = "- 111" and m = "6755399441055744"]) (simp_all add: power_int_minus)

lemma tenth_27: "dbl (1 / 1298074214633706907132624082305024) = 1 / 1298074214633706907132624082305024"
  by (rule dbl_nearI[where k = "- 110" and m = "4503599627370496"]) (simp_all add: power_int_minus)

lemma tenth_28: "dbl (5 / 5192296858534827628530496329220096) = 5 / 5192296858534827628530496329220096"
  by (rule dbl_nearI[where k = "- 110" and m = "5629499534213120"]) (simp_all add: power_int_minus)

lemma tenth_29: "dbl (3 / 2596148429267413814265248164610048) = 3 / 2596148429267413814265248164610048"
  by (rule dbl_nearI[where k = "- 110" and m = "6755399441055744"]) (simp_all add: power_int_minus)

lemma tenth_30: "dbl (7 / 5192296858534827628530496329220096) = 7 / 5192296858534827628530496329220096"
  by (rule dbl_nearI[where k = "- 110" and m = "7881299347898368"]) (simp_all add: power_int_minus)

lemma tenth_31: "dbl (1 / 649037107316853453566312041152512) = 1 / 649037107316853453566312041152512"
  by (rule dbl_nearI[where k = "- 109" and m = "4503599627370496"]) (simp_all add: power_int_minus)

lemma tenth_32: "dbl (9 / 5192296858534827628530496329220096) = 9 / 5192296858534827628530496329220096"
  by (rule dbl_nearI[where k = "- 109" and m = "5066549580791808"]) (simp_all add: power_int_minus)

lemma tenth_33: "dbl (5 / 2596148429267413814265248164610048) = 5 / 2596148429267413814265248164610048"
  by (rule dbl_nearI[where k = "- 109" and m = "5629499534213120"]) (simp_all add: power_int_minus)

lemma tenth_34: "dbl (11 / 5192296858534827628530496329220096) = 11 / 5192296858534827628530496329220096"
  by (rule dbl_nearI[where k = "- 109" and m = "6192449487634432"]) (simp_all add: power_int_minus)

lemma tenth_35: "dbl (3 / 1298074214633706907132624082305024) = 3 / 1298074214633706907132624082305024"
  by (rule dbl_nearI[where k = "- 109" and m = "6755399441055744"]) (simp_all add: power_int_minus)

lemma tenth_36: "dbl (13 / 5192296858534827628530496329220096) = 13 / 5192296858534827628530496329220096"
  by (rule dbl_nearI[where k = "- 109" and m = "7318349394477056"]) (simp_all add: power_int_minus)

lemma tenth_37: "dbl (7 / 2596148429267413814265248164610048) = 7 / 2596148429267413814265248164610048"
  by (rule dbl_nearI[where k = "- 109" and m = "7881299347898368"]) (simp_all add: power_int_minus)

lemma tenth_38: "dbl (15 / 5192296858534827628530496329220096) = 15 / 5192296858534827628530496329220096"
  by (rule dbl_nearI[where k = "- 109" and m = "8444249301319680"]) (simp_all add: power_int_minus)

lemma tenth_39: "dbl (1 / 324518553658426726783156020576256) = 1 / 324518553658426726783156020576256"
  by (rule dbl_nearI[where k = "- 108" and m = "4503599627370496"]) (simp_all add: power_int_minus)

lemma tenth_40: "dbl (17 / 5192296858534827628530496329220096) = 17 / 5192296858534827628530496329220096"
  by (rule dbl_nearI[where k = "- 108" and m = "4785074604081152"]) (simp_all add: power_int_minus)

lemma tenth_41: "dbl (9 / 2596148429267413814265248164610048) = 9 / 2596148429267413814265248164610048"
  by (rule dbl_nearI[where k = "- 108" and m = "5066549580791808"]) (simp_all add: power_int_minus)

lemma tenth_42: "dbl (19 / 5192296858534827628530496329220096) = 19 / 5192296858534827628530496329220096"
  by (rule dbl_nearI[where k = "- 108" and m = "5348024557502464"]) (simp_all add: power_int_minus)

lemma tenth_43: "dbl (5 / 1298074214633706907132624082305024) = 5 / 1298074214633706907132624082305024"
  by (rule dbl_nearI[where k = "- 108" and m = "5629499534213120"]) (simp_all add: power_int_minus)

lemma tenth_44: "sqrt (1 / 5192296858534827628530496329220096) = 1 / 72057594037927936"
  by (rule real_sqrt_unique) (simp_all add: power2_eq_square)

lemma tenth_45: "dbl (1 / 72057594037927936) = 1 / 72057594037927936"
  by (rule dbl_nearI[where k = "- 56" and m = "4503599627370496"]) (simp_all add: power_int_minus)

lemma tenth_46: "dbl (1 / 36028797018963968) = 1 / 36028797018963968"
  by (rule dbl_nearI[where k = "- 55" and m = "4503599627370496"]) (simp_all add: power_int_minus)

lemma tenth_47: "dbl (7205759403792797 / 72057594037927936) = 7205759403792797 / 72057594037927936"
  by (rule dbl_nearI[where k = "- 4" and m = "7205759403792797"]) (simp_all add: power_int_minus)

lemma tenth_48: "dbl (7205759403792793 / 72057594037927936) = 7205759403792793 / 72057594037927936"
  by (rule dbl_nearI[where k = "- 4" and m = "7205759403792793"]) (simp_all add: power_int_minus)

lemma tenth_49: "dbl (1 / 18014398509481984) = 1 / 18014398509481984"
  by (rule dbl_nearI[where k = "- 54" and m = "4503599627370496"]) (simp_all add: power_int_minus)

lemma tenth_50: "dbl (1 / 4) = 1 / 4"
  by (rule dbl_nearI[where k = "- 2" and m = "4503599627370496"]) (simp_all add: power_int_minus)

lemmas tenth_ops =
  tenth_1 tenth_2 tenth_3 tenth_4 tenth_5 tenth_6 tenth_7 tenth_8
  tenth_9 tenth_10 tenth_11 tenth_12 tenth_13 tenth_14 tenth_15 tenth_16
  tenth_17 tenth_18 tenth_19 tenth_20 tenth_21 tenth_22 tenth_23 tenth_24
  tenth_25 tenth_26 tenth_27 tenth_28 tenth_29 tenth_30 tenth_31 tenth_32
  tenth_33 tenth_34 tenth_35 tenth_36 tenth_37 tenth_38 tenth_39 tenth_40
  tenth_41 tenth_42 tenth_43 tenth_44 tenth_45 tenth_46 tenth_47 tenth_48
  tenth_49 tenth_50

text \<open>
  C10, as stated, fails.  Twenty equal closes of \<open>0.1\<close>: the running sum rounds, the mean comes
  out one unit in the last place above the close, the computed deviation is \<open>2 powi (- 56)\<close>,
  not zero, the guard lets the division through and \<open>percentB\<close> is 0.25.
\<close>

theorem equal_closes_not_neutral:
  "window_std (replicate 20 (1 / 10)) 20 19 = 1 / 72057594037927936
   \<and> calcBollingerSeries (replicate 20 (1 / 10)) 20 ! 19 =
       Some \<lparr>bb_upper = 7205759403792797 / 72057594037927936,
             bb_middle = 7205759403792795 / 72057594037927936,
             bb_lower = 7205759403792793 / 72057594037927936,
             bb_percentB = 1 / 4\<rparr>"
proof -
  have "window_std (replicate 20 (1 / 10)) 20 19 = 1 / 72057594037927936"
    by (simp add: window_std_def Let_def replicate_20 fl_defs dbl_ints tenth_ops)
  moreover have "bollinger_at (replicate 20 (1 / 10)) 20 19 =
       Some \<lparr>bb_upper = 7205759403792797 / 72057594037927936,
             bb_middle = 7205759403792795 / 72057594037927936,
             bb_lower = 7205759403792793 / 72057594037927936,
             bb_percentB = 1 / 4\<rparr>"
    by (simp add: bollinger_at_def Let_def replicate_20 fl_defs dbl_ints tenth_ops)
  ultimately show ?thesis by (simp add: calcBollingerSeries_nth)
qed

text \<open>
  C10, amended.  In the Bollinger series of the backtest script (period 20), at every index
  with a full trailing 20-bar window the entry is defined.  When the deviation the code
  computes is zero, \<open>percentB\<close> is 0.5.  Otherwise the deviation is positive, the divisor
  \<^verbatim>\<open>4 * std\<close> is positive too, and \<open>percentB\<close> is the rounded quotient: no division by zero
  is evaluated.  When the closes of the window are one integer below \<open>2 ^ 48\<close> the computed
  deviation is zero, the three bands coincide with the close and \<open>percentB\<close> is 0.5.
\<close>

theorem bollinger_division_guarded:
  assumes "19 \<le> i" and "i < length closes"
  shows "\<exists>bb. calcBollingerSeries closes 20 ! i = Some bb
     \<and> 0 \<le> window_std closes 20 i
     \<and> (window_std closes 20 i = 0 \<longrightarrow> bb_percentB bb = 1 / 2)
     \<and> (window_std closes 20 i \<noteq> 0 \<longrightarrow>
          0 < fmul 4 (window_std closes 20 i)
          \<and> bb_percentB bb = fdiv (fsub (dbl (closes ! i)) (bb_lower bb))
                                   (fmul 4 (window_std closes 20 i)))
     \<and> (\<forall>m. \<bar>m\<bar> < 2 ^ 48 \<and> (\<forall>j. i - 19 \<le> j \<and> j \<le> i \<longrightarrow> closes ! j = of_int m)
            \<longrightarrow> window_std closes 20 i = 0
                \<and> bb = \<lparr>bb_upper = of_int m, bb_middle = of_int m, bb_lower = of_int m,
                         bb_percentB = 1 / 2\<rparr>)"
proof -
  let ?std = "window_std closes 20 i"
  let ?sma = "window_sma closes 20 i"
  let ?bb = "\<lparr>bb_upper = fadd ?sma (fmul 2 ?std), bb_middle = ?sma,
              bb_lower = fsub ?sma (fmul 2 ?std),
              bb_percentB = (if ?std > 0
                then fdiv (fsub (dbl (closes ! i)) (fsub ?sma (fmul 2 ?std))) (fmul 4 ?std)
                else 1 / 2)\<rparr>"
  have nn: "0 \<le> ?std" by (rule window_std_nonneg)
  have entry: "calcBollingerSeries closes 20 ! i = Some ?bb"
    using assms by (simp add: calcBollingerSeries_nth bollinger_at_window)
  have zero: "?std = 0 \<longrightarrow> bb_percentB ?bb = 1 / 2" by simp
  have pos: "?std \<noteq> 0 \<longrightarrow> 0 < fmul 4 ?std
       \<and> bb_percentB ?bb = fdiv (fsub (dbl (closes ! i)) (bb_lower ?bb)) (fmul 4 ?std)"
  proof
    assume "?std \<noteq> 0"
    with nn have p: "0 < ?std" by simp
    from window_divisor_pos[OF p] p
    show "0 < fmul 4 ?std
       \<and> bb_percentB ?bb = fdiv (fsub (dbl (closes ! i)) (bb_lower ?bb)) (fmul 4 ?std)"
      by simp
  qed
  have ints: "\<forall>m. \<bar>m\<bar> < 2 ^ 48 \<and> (\<forall>j. i - 19 \<le> j \<and> j \<le> i \<longrightarrow> closes ! j = of_int m)
            \<longrightarrow> ?std = 0
                \<and> ?bb = \<lparr>bb_upper = of_int m, bb_middle = of_int m, bb_lower = of_int m,
                         bb_percentB = 1 / 2\<rparr>"
  proof (intro allI impI)
    fix m :: int
    assume h: "\<bar>m\<bar> < 2 ^ 48 \<and> (\<forall>j. i - 19 \<le> j \<and> j \<le> i \<longrightarrow> closes ! j = of_int m)"
    let ?slice = "take 20 (drop (i + 1 - 20) closes)"
    have len: "length ?slice = 20" using assms by simp
    have nth: "?slice ! k = closes ! (i - 19 + k)" if "k < 20" for k
      using that assms by simp
    have rep: "?slice = replicate 20 (of_int m)"
    proof (rule nth_equalityI)
      show "length ?slice = length (replicate 20 (real_of_int m))" using len by simp
    next
      fix k assume "k < length ?slice"
      then have k: "k < 20" using len by simp
      have "i - 19 \<le> i - 19 + k \<and> i - 19 + k \<le> i" using assms(1) k by arith
      with h have "closes ! (i - 19 + k) = of_int m" by blast
      then show "?slice ! k = replicate 20 (real_of_int m) ! k" using k nth[OF k] by simp
    qed
    have b: "int 20 * \<bar>m\<bar> < 2 ^ 53" using h by simp
    have m53: "\<bar>m\<bar> < 2 ^ 53" using h by simp
    have s: "?sma = of_int m" and z: "?std = 0"
      using window_const[OF _ b rep] by simp_all
    show "?std = 0
                \<and> ?bb = \<lparr>bb_upper = of_int m, bb_middle = of_int m, bb_lower = of_int m,
                         bb_percentB = 1 / 2\<rparr>"
      unfolding s z by (simp add: fl_defs dbl_of_int[OF m53])
  qed
  from entry nn zero pos ints show ?thesis by blast
qed

text \<open>
  Twenty closes of 100 have the computed deviation 0 and the neutral \<open>percentB\<close>; sixteen
  closes of 105 followed by four of 100 have the mean 104 and the deviation 2, the divisor is
  8, and the last close, on the lower band, has \<open>percentB\<close> 0.
\<close>

theorem bollinger_division_guarded_witness:
  "window_std (replicate 20 100) 20 19 = 0
   \<and> calcBollingerSeries (replicate 20 100) 20 ! 19 =
       Some \<lparr>bb_upper = 100, bb_middle = 100, bb_lower = 100, bb_percentB = 1 / 2\<rparr>
   \<and> window_std (replicate 16 105 @ replicate 4 100) 20 19 = 2
   \<and> fmul 4 (window_std (replicate 16 105 @ replicate 4 100) 20 19) = 8
   \<and> calcBollingerSeries (replicate 16 105 @ replicate 4 100) 20 ! 19 =
       Some \<lparr>bb_upper = 108, bb_middle = 104, bb_lower = 100, bb_percentB = 0\<rparr>"
proof -
  have h1: "(19::nat) \<le> 19" and h2: "19 < length (replicate 20 (100::real))" by simp_all
  have c: "\<bar>100::int\<bar> < 2 ^ 48
           \<and> (\<forall>j. 19 - 19 \<le> j \<and> j \<le> 19 \<longrightarrow> replicate 20 (100::real) ! j = of_int 100)"
    by simp
  from bollinger_division_guarded[OF h1 h2] obtain bb where
    e: "calcBollingerSeries (replicate 20 100) 20 ! 19 = Some bb" and
    i: "\<forall>m. \<bar>m\<bar> < 2 ^ 48
           \<and> (\<forall>j. 19 - 19 \<le> j \<and> j \<le> 19 \<longrightarrow> replicate 20 (100::real) ! j = of_int m)
         \<longrightarrow> window_std (replicate 20 100) 20 19 = 0
             \<and> bb = \<lparr>bb_upper = of_int m, bb_middle = of_int m, bb_lower = of_int m,
                      bb_percentB = 1 / 2\<rparr>"
    by blast
  from i c have f: "window_std (replicate 20 100) 20 19 = 0
             \<and> bb = \<lparr>bb_upper = of_int 100, bb_middle = of_int 100, bb_lower = of_int 100,
                      bb_percentB = 1 / 2\<rparr>"
    by blast
  have s2: "window_std (replicate 16 105 @ replicate 4 100) 20 19 = 2"
    by (simp add: window_std_def Let_def numeral_eq_Suc fl_defs dbl_ints)
  have h3: "19 < length (replicate 16 (105::real) @ replicate 4 100)" by simp
  from bollinger_division_guarded[OF h1 h3] obtain bb2 where
    e2: "calcBollingerSeries (replicate 16 105 @ replicate 4 100) 20 ! 19 = Some bb2" and
    p2: "window_std (replicate 16 105 @ replicate 4 100) 20 19 \<noteq> 0 \<longrightarrow>
          0 < fmul 4 (window_std (replicate 16 105 @ replicate 4 100) 20 19)"
    by blast
  have d: "fmul 4 2 = 8" by (simp add: fl_defs dbl_ints)
  have b2: "bollinger_at (replicate 16 105 @ replicate 4 100) 20 19 =
       Some \<lparr>bb_upper = 108, bb_middle = 104, bb_lower = 100, bb_percentB = 0\<rparr>"
    by (simp add: bollinger_at_def Let_def numeral_eq_Suc fl_defs dbl_ints)
  from e f s2 d b2 show ?thesis by (simp add: calcBollingerSeries_nth)
qed

section \<open>Claims about the live indicators and the scorer\<close>

text \<open>The MACD line of \<^verbatim>\<open>calcMACD\<close> is EMA(12) minus EMA(26) of the closes so far.\<close>

lemma macd_loop_nth:
  "j < length (macd_loop a b i xs) \<Longrightarrow>
     macd_loop a b i xs ! j =
       ema_fold (2 / 13) a (take (Suc j + (25 - i)) xs)
       - ema_fold (2 / 27) b (take (Suc j + (25 - i)) xs)"
proof (induction xs arbitrary: a b i j)
  case Nil
  then show ?case by simp
next
  case (Cons x xs)
  let ?a = "x * (2 / 13) + a * (1 - 2 / 13)" and ?b = "x * (2 / 27) + b * (1 - 2 / 27)"
  show ?case
  proof (cases "25 \<le> i")
    case True
    show ?thesis
    proof (cases j)
      case 0
      then show ?thesis using True by (simp add: Let_def)
    next
      case (Suc j')
      then have "j' < length (macd_loop ?a ?b (Suc i) xs)"
        using Cons.prems True by (simp add: Let_def)
      from Cons.IH[OF this] show ?thesis using True Suc by (simp add: Let_def)
    qed
  next
    case False
    then have "j < length (macd_loop ?a ?b (Suc i) xs)"
      using Cons.prems by (simp add: Let_def)
    from Cons.IH[OF this] have
      "macd_loop ?a ?b (Suc i) xs ! j =
         ema_fold (2 / 13) ?a (take (Suc j + (25 - Suc i)) xs)
         - ema_fold (2 / 27) ?b (take (Suc j + (25 - Suc i)) xs)" .
    moreover have "Suc j + (25 - i) = Suc (Suc j + (25 - Suc i))" using False by simp
    ultimately show ?thesis using False by (simp add: Let_def)
  qed
qed

lemma calcEMA_nonempty:
  "xs \<noteq> [] \<Longrightarrow> calcEMA xs p = Some (ema_fold (2 / (real p + 1)) (hd xs) (tl xs))"
  by (cases xs) (simp_all add: calcEMA_def)

lemma macd_line_as_ema_difference:
  "map Some (macd_line closes) = map (macd_at closes) [26..<Suc (length closes)]"
proof (rule nth_equalityI)
  show "length (map Some (macd_line closes)) = length (map (macd_at closes) [26..<Suc (length closes)])"
    unfolding length_map length_upt length_macd_line by arith
next
  fix j assume "j < length (map Some (macd_line closes))"
  then have j: "j < length closes - 25" by (simp add: length_macd_line)
  then obtain x xs where c: "closes = x # xs" by (cases closes) auto
  have jl: "j < length (macd_loop x x 1 xs)" using j c by (simp add: length_macd_loop)
  have "macd_line closes ! j =
          ema_fold (2 / 13) x (take (25 + j) xs) - ema_fold (2 / 27) x (take (25 + j) xs)"
    using macd_loop_nth[OF jl] by (simp add: macd_line_def c)
  moreover have "take (26 + j) (x # xs) = x # take (25 + j) xs" by (simp add: take_Cons')
  then have "macd_at closes (26 + j) =
          Some (ema_fold (2 / 13) x (take (25 + j) xs) - ema_fold (2 / 27) x (take (25 + j) xs))"
    by (simp add: macd_at_def calcEMA_def c)
  moreover have "[26..<Suc (length closes)] ! j = 26 + j"
    by (rule nth_upt) (use j in arith)
  moreover have "j < length [26..<Suc (length closes)]"
    unfolding length_upt using j by arith
  ultimately show "map Some (macd_line closes) ! j = map (macd_at closes) [26..<Suc (length closes)] ! j"
    using j by (simp add: length_macd_line del: upt_Suc)
qed

text \<open>
  C4, as stated, fails.  With 34 closes (33 at 100, the last at 101), fewer than 35, the MACD
  line has nine values and \<^verbatim>\<open>calcMACD\<close> returns their EMA(9) as the signal, 28/1755, and
  the histogram 112/1755, not the zero of the partial result.
\<close>

theorem macd_signal_with_34_closes:
  "length cs34 = 34
   \<and> mp_macd (calcMACD cs34) = 28 / 351
   \<and> mp_signal (calcMACD cs34) = 28 / 1755
   \<and> mp_hist (calcMACD cs34) = 112 / 1755"
  by (simp add: cs34_macd) (simp add: cs34_def)

text \<open>
  C4, amended.  For every candle series: with fewer than 26 closes \<^verbatim>\<open>calcMACD\<close> returns
  zero for all three outputs; with fewer than 34 closes the signal line and the histogram are
  zero; from 26 closes on the MACD output is the last value of the MACD line; with 34 or more
  closes the signal line is the EMA(9) (\<^verbatim>\<open>calcEMA\<close>) of the MACD line and the histogram is
  MACD minus signal.  The MACD line holds, for each count of closes from 26 on, EMA(12) minus
  EMA(26) of those closes.
\<close>

theorem calcMACD_thresholds:
  "(length cs < 26 \<longrightarrow> calcMACD cs = \<lparr>mp_macd = 0, mp_signal = 0, mp_hist = 0\<rparr>)
   \<and> (length cs < 34 \<longrightarrow> mp_signal (calcMACD cs) = 0 \<and> mp_hist (calcMACD cs) = 0)
   \<and> (26 \<le> length cs \<longrightarrow> mp_macd (calcMACD cs) = last (macd_line (map candle_c cs)))
   \<and> (34 \<le> length cs \<longrightarrow>
        calcEMA (macd_line (map candle_c cs)) 9 = Some (mp_signal (calcMACD cs))
        \<and> mp_hist (calcMACD cs) = mp_macd (calcMACD cs) - mp_signal (calcMACD cs))
   \<and> map Some (macd_line (map candle_c cs))
       = map (macd_at (map candle_c cs)) [26..<Suc (length cs)]"
proof -
  let ?ml = "macd_line (map candle_c cs)"
  have len: "length ?ml = length cs - 25" by (simp add: length_macd_line)
  have a: "length cs < 26 \<longrightarrow> calcMACD cs = \<lparr>mp_macd = 0, mp_signal = 0, mp_hist = 0\<rparr>"
    by (simp add: calcMACD_def)
  have b: "length cs < 34 \<longrightarrow> mp_signal (calcMACD cs) = 0 \<and> mp_hist (calcMACD cs) = 0"
  proof
    assume "length cs < 34"
    then have "length ?ml < 9" using len by simp
    then show "mp_signal (calcMACD cs) = 0 \<and> mp_hist (calcMACD cs) = 0"
      by (simp add: calcMACD_def Let_def)
  qed
  have c: "26 \<le> length cs \<longrightarrow> mp_macd (calcMACD cs) = last ?ml"
  proof
    assume "26 \<le> length cs"
    moreover from this have "?ml \<noteq> []" using len by auto
    ultimately show "mp_macd (calcMACD cs) = last ?ml"
      by (simp add: calcMACD_def Let_def)
  qed
  have d: "34 \<le> length cs \<longrightarrow>
        calcEMA ?ml 9 = Some (mp_signal (calcMACD cs))
        \<and> mp_hist (calcMACD cs) = mp_macd (calcMACD cs) - mp_signal (calcMACD cs)"
  proof
    assume n: "34 \<le> length cs"
    then have l9: "\<not> length ?ml < 9" and l26: "\<not> length cs < 26" using len by simp_all
    from l9 have "?ml \<noteq> []" by auto
    then have "calcEMA ?ml 9 = Some (ema_fold (2 / 10) (hd ?ml) (tl ?ml))"
      by (simp add: calcEMA_nonempty)
    then show "calcEMA ?ml 9 = Some (mp_signal (calcMACD cs))
        \<and> mp_hist (calcMACD cs) = mp_macd (calcMACD cs) - mp_signal (calcMACD cs)"
      using l9 l26 by (simp add: calcMACD_def Let_def)
  qed
  from a b c d macd_line_as_ema_difference[of "map candle_c cs"] show ?thesis by simp
qed

theorem calcMACD_thresholds_witness:
  "length (take 25 cs34) < 26
   \<and> calcMACD (take 25 cs34) = \<lparr>mp_macd = 0, mp_signal = 0, mp_hist = 0\<rparr>
   \<and> length (take 33 cs34) < 34
   \<and> mp_signal (calcMACD (take 33 cs34)) = 0
   \<and> 34 \<le> length cs34
   \<and> calcEMA (macd_line (map candle_c cs34)) 9 = Some (28 / 1755)"
proof -
  have l25: "length (take 25 cs34) < 26" and l33: "length (take 33 cs34) < 34"
    and l34: "34 \<le> length cs34"
    by (simp_all add: cs34_def)
  from calcMACD_thresholds[of "take 25 cs34"] l25
  have "calcMACD (take 25 cs34) = \<lparr>mp_macd = 0, mp_signal = 0, mp_hist = 0\<rparr>" by blast
  moreover from calcMACD_thresholds[of "take 33 cs34"] l33
  have "mp_signal (calcMACD (take 33 cs34)) = 0" by blast
  moreover from calcMACD_thresholds[of cs34] l34
  have "calcEMA (macd_line (map candle_c cs34)) 9 = Some (mp_signal (calcMACD cs34))" by blast
  ultimately show ?thesis using l25 l33 l34 by (simp add: cs34_macd)
qed

text \<open>
  C5.  For every market snapshot in which exactly one factor is scored, the aggregate equals
  that factor's score; and the snapshot with funding rate \<open>-0.002\<close> and nothing else has the
  aggregate 30.
\<close>

theorem single_factor_identity:
  "(scoreSignals d k = Some s \<and> (\<forall>j. j \<noteq> k \<longrightarrow> scoreSignals d j = None)
      \<longrightarrow> aggregate (scoreSignals d) = s)
   \<and> aggregate (scoreSignals funding_only) = 30"
proof -
  have gen: "aggregate (scoreSignals d') = s'"
    if "scoreSignals d' k' = Some s'" and "\<forall>j. j \<noteq> k' \<longrightarrow> scoreSignals d' j = None"
    for d' k' s'
    using that scoreSignals_int[OF that(1)] by (intro aggregate_single[of _ k']) simp_all
  have f: "scoreSignals funding_only Funding = Some 30"
    by (simp add: scoreSignals_def funding_only_def no_data_def score_funding_def dbl_consts)
  have "\<forall>j. j \<noteq> Funding \<longrightarrow> scoreSignals funding_only j = None"
    by (simp add: scoreSignals_def funding_only_def no_data_def split: factor.splits)
  from gen[OF f this] gen show ?thesis by blast
qed

theorem single_factor_identity_witness:
  "scoreSignals fear_only FearGreed = Some 30
   \<and> dom (scoreSignals fear_only) = {FearGreed}
   \<and> aggregate (scoreSignals fear_only) = 30"
proof -
  have f: "scoreSignals fear_only FearGreed = Some 30"
    by (simp add: scoreSignals_def fear_only_def no_data_def score_fearGreed_def)
  have o: "\<forall>j. j \<noteq> FearGreed \<longrightarrow> scoreSignals fear_only j = None"
    by (simp add: scoreSignals_def fear_only_def no_data_def split: factor.splits)
  have d: "dom (scoreSignals fear_only) = {FearGreed}"
    using f o by (auto simp: dom_def)
  from single_factor_identity[of fear_only FearGreed 30] f o
  have "aggregate (scoreSignals fear_only) = 30" by blast
  with f d show ?thesis by blast
qed

text \<open>
  C6.  For every score object: with no factor present the aggregate is 0; otherwise it is the
  weighted mean over the factors present, times 100, rounded to the nearest integer (a tie
  going up), divided by 100.  So it is a whole number of hundredths and differs from the
  weighted mean by at most half a hundredth.
\<close>

theorem aggregate_weighted_mean:
  "aggregate scores = (if dom scores = {} then 0 else js_round (weighted_mean scores * 100) / 100)
   \<and> aggregate scores * 100 \<in> \<int>
   \<and> \<bar>aggregate scores - (if dom scores = {} then 0 else weighted_mean scores)\<bar> \<le> 1 / 200"
proof -
  have "\<bar>js_round (weighted_mean scores * 100) - weighted_mean scores * 100\<bar> \<le> 1 / 2"
    by (rule js_round_near)
  then have "\<bar>js_round (weighted_mean scores * 100) / 100 - weighted_mean scores\<bar> \<le> 1 / 200"
    by (simp add: abs_le_iff field_simps)
  moreover have "js_round (weighted_mean scores * 100) \<in> \<int>" by (simp add: js_round_def)
  ultimately show ?thesis by (simp add: aggregate_eq)
qed

theorem aggregate_weighted_mean_witness:
  "dom two_scores = {FearGreed, Rsi}
   \<and> weighted_mean two_scores = 30
   \<and> aggregate two_scores = 30
   \<and> aggregate (\<lambda>k. None) = 0"
proof -
  have d: "dom two_scores = {FearGreed, Rsi}" by (auto simp: two_scores_def dom_def)
  have m: "weighted_mean two_scores = 30"
    by (simp add: weighted_mean_def d) (simp add: two_scores_def weight_of_def)
  have "js_round 3000 = 3000" by (rule js_round_int) simp
  with aggregate_weighted_mean[of two_scores] d m have "aggregate two_scores = 30" by simp
  moreover from aggregate_weighted_mean[of "\<lambda>k. None"] have "aggregate (\<lambda>k. None) = 0" by simp
  ultimately show ?thesis using d m by blast
qed

section \<open>Band boundaries of the live scorer\<close>

text \<open>The roundings met when the scorer reads the decimal inputs evaluated below.\<close>

lemma metric_1: "dbl (1 / 1250) = 7378697629483821 / 9223372036854775808"
  by (rule dbl_nearI[where k = "- 11" and m = "7378697629483821"]) (simp_all add: power_int_minus)

lemma metric_2: "dbl (7378697629483821 / 9223372036854775808) = 7378697629483821 / 9223372036854775808"
  by (rule dbl_nearI[where k = "- 11" and m = "7378697629483821"]) (simp_all add: power_int_minus)

lemma metric_3: "dbl (7378697629483821 / 4611686018427387904) = 7378697629483821 / 4611686018427387904"
  by (rule dbl_nearI[where k = "- 10" and m = "7378697629483821"]) (simp_all add: power_int_minus)

lemma metric_4: "dbl (22136092888451463 / 9223372036854775808) = 2767011611056433 / 1152921504606846976"
  by (rule dbl_nearI[where k = "- 9" and m = "5534023222112866"]) (simp_all add: power_int_minus)

lemma metric_5: "dbl (2767011611056433 / 3458764513820540928) = 7378697629483821 / 9223372036854775808"
  by (rule dbl_nearI[where k = "- 11" and m = "7378697629483821"]) (simp_all add: power_int_minus)

lemma metric_6: "dbl (- (9 / 5000)) = - (4150517416584649 / 2305843009213693952)"
  by (rule dbl_nearI[where k = "- 10" and m = "- 8301034833169298"]) (simp_all add: power_int_minus)

lemma metric_7: "dbl (- (4150517416584649 / 2305843009213693952)) = - (4150517416584649 / 2305843009213693952)"
  by (rule dbl_nearI[where k = "- 10" and m = "- 8301034833169298"]) (simp_all add: power_int_minus)

lemma metric_8: "dbl (- (4150517416584649 / 1152921504606846976)) = - (4150517416584649 / 1152921504606846976)"
  by (rule dbl_nearI[where k = "- 9" and m = "- 8301034833169298"]) (simp_all add: power_int_minus)

lemma metric_9: "dbl (- (12451552249753947 / 2305843009213693952)) = - (3112888062438487 / 576460752303423488)"
  by (rule dbl_tie[where k = "- 8" and m = "- 6225776124876974"]) (simp_all add: power_int_minus)

lemma metric_10: "dbl (- (3112888062438487 / 1729382256910270464)) = - (8301034833169299 / 4611686018427387904)"
  by (rule dbl_nearI[where k = "- 10" and m = "- 8301034833169299"]) (simp_all add: power_int_minus)

lemma metric_11: "dbl (3 / 5) = 5404319552844595 / 9007199254740992"
  by (rule dbl_nearI[where k = "- 1" and m = "5404319552844595"]) (simp_all add: power_int_minus)

lemma metric_12: "dbl (3 / 10) = 5404319552844595 / 18014398509481984"
  by (rule dbl_nearI[where k = "- 2" and m = "5404319552844595"]) (simp_all add: power_int_minus)

lemma metric_13: "dbl (5404319552844595 / 18014398509481984) = 5404319552844595 / 18014398509481984"
  by (rule dbl_nearI[where k = "- 2" and m = "5404319552844595"]) (simp_all add: power_int_minus)

lemma metric_14: "dbl (17 / 10) = 7656119366529843 / 4503599627370496"
  by (rule dbl_nearI[where k = "0" and m = "7656119366529843"]) (simp_all add: power_int_minus)

lemma metric_15: "dbl (1351079888211149 / 4503599627370496) = 1351079888211149 / 4503599627370496"
  by (rule dbl_nearI[where k = "- 2" and m = "5404319552844596"]) (simp_all add: power_int_minus)

lemma metric_16: "dbl (4 / 5) = 3602879701896397 / 4503599627370496"
  by (rule dbl_nearI[where k = "- 1" and m = "7205759403792794"]) (simp_all add: power_int_minus)

lemma metric_17: "dbl (6 / 5) = 5404319552844595 / 4503599627370496"
  by (rule dbl_nearI[where k = "0" and m = "5404319552844595"]) (simp_all add: power_int_minus)

lemma metric_18: "dbl (27021597764222975 / 18014398509481984) = 3 / 2"
  by (rule dbl_nearI[where k = "0" and m = "6755399441055744"]) (simp_all add: power_int_minus)

lemma metric_19: "dbl (5404319552844595 / 27021597764222976) = 7205759403792793 / 36028797018963968"
  by (rule dbl_nearI[where k = "- 3" and m = "7205759403792793"]) (simp_all add: power_int_minus)

lemma metric_20: "dbl (1 / 5) = 3602879701896397 / 18014398509481984"
  by (rule dbl_nearI[where k = "- 3" and m = "7205759403792794"]) (simp_all add: power_int_minus)

lemma metric_21: "dbl (- (1 / 1000)) = - (1152921504606847 / 1152921504606846976)"
  by (rule dbl_nearI[where k = "- 10" and m = "- 4611686018427388"]) (simp_all add: power_int_minus)

lemma metric_22: "dbl (- (3 / 10000)) = - (5534023222112865 / 18446744073709551616)"
  by (rule dbl_nearI[where k = "- 12" and m = "- 5534023222112865"]) (simp_all add: power_int_minus)

lemma metric_23: "dbl (1 / 2000) = 1152921504606847 / 2305843009213693952"
  by (rule dbl_nearI[where k = "- 11" and m = "4611686018427388"]) (simp_all add: power_int_minus)

lemma metric_24: "dbl (1 / 1000) = 1152921504606847 / 1152921504606846976"
  by (rule dbl_nearI[where k = "- 10" and m = "4611686018427388"]) (simp_all add: power_int_minus)

lemma metric_25: "dbl (7 / 2) = 7 / 2"
  by (rule dbl_nearI[where k = "1" and m = "7881299347898368"]) (simp_all add: power_int_minus)

lemma metric_26: "dbl (14 / 5) = 3152519739159347 / 1125899906842624"
  by (rule dbl_nearI[where k = "1" and m = "6305039478318694"]) (simp_all add: power_int_minus)

lemma metric_27: "dbl (9 / 5) = 8106479329266893 / 4503599627370496"
  by (rule dbl_nearI[where k = "0" and m = "8106479329266893"]) (simp_all add: power_int_minus)

lemma metric_28: "dbl (2 / 5) = 3602879701896397 / 9007199254740992"
  by (rule dbl_nearI[where k = "- 2" and m = "7205759403792794"]) (simp_all add: power_int_minus)

lemmas metric_ops =
  metric_1 metric_2 metric_3 metric_4 metric_5 metric_6 metric_7 metric_8
  metric_9 metric_10 metric_11 metric_12 metric_13 metric_14 metric_15 metric_16
  metric_17 metric_18 metric_19 metric_20 metric_21 metric_22 metric_23 metric_24
  metric_25 metric_26 metric_27 metric_28











text \<open>
  Decimal inputs that look like boundary cases on paper and are not in the doubles: the
  difference \<open>2 - 1.7\<close> rounds above \<open>0.3\<close>, the share \<open>0.3 / (0.3 + 1.2)\<close> rounds below
  \<open>0.2\<close>, and the mean of three samples of \<open>-0.0018\<close> rounds below the sample.
\<close>

lemma rounded_metrics_off_boundary:
  "scoreSignals (no_data\<lparr>longShortCurrent := Some 2, longShortPrev := Some (17 / 10)\<rparr>) LongShort
     = Some (- 5)"
  "scoreSignals (no_data\<lparr>liqLong := Some (3 / 10), liqShort := Some (12 / 10)\<rparr>) Liquidation
     = Some (- 15)"
  "scoreSignals (no_data\<lparr>fundingHistory :=
       Some [- (18 / 10000), - (18 / 10000), - (18 / 10000), - (18 / 10000)]\<rparr>) FundingTrend
     = Some 20"
  by (simp_all add: scoreSignals_def no_data_def score_longShort_def score_liquidation_def
      score_fundingTrend_def recentAvg_def olderAvg_def Let_def fl_defs dbl_ints metric_ops)







end
